theory Spec2Isabelle
  imports Main
begin

section \<open>JSON values and the JavaScript operations the adapters apply to them\<close>

text \<open>
  The adapters in \<^verbatim>\<open>src/server/ai/provider\<close> handle vendor responses as
  untyped (\<^verbatim>\<open>any\<close>) JSON. A parsed JSON document is a value of \<open>json\<close>;
  an object is its list of members. The JavaScript value \<^verbatim>\<open>undefined\<close>, which
  JSON cannot express, is \<open>None\<close> of \<open>json option\<close>. Numbers are abstracted
  to integers: the adapters only test them for truthiness and equality.
\<close>

datatype json =
    JNull
  | JBool bool
  | JNum int
  | JStr string
  | JArr "json list"
  | JObj "(string \<times> json) list"

text \<open>JavaScript truthiness, as \<^verbatim>\<open>if (v)\<close>, \<^verbatim>\<open>v && w\<close> and \<^verbatim>\<open>Boolean(v)\<close> read it.\<close>

fun truthy :: "json \<Rightarrow> bool" where
  "truthy JNull = False"
| "truthy (JBool b) = b"
| "truthy (JNum k) = (k \<noteq> 0)"
| "truthy (JStr s) = (s \<noteq> [])"
| "truthy (JArr xs) = True"
| "truthy (JObj kvs) = True"

text \<open>
  \<^verbatim>\<open>v.k\<close> on a value that is not \<^verbatim>\<open>null\<close>: a member of an object, and
  \<^verbatim>\<open>undefined\<close> on an object without it and on a number, boolean, string or
  array (none of the keys the adapters read is a built-in property of those).
\<close>

fun member :: "json \<Rightarrow> string \<Rightarrow> json option" where
  "member (JObj kvs) k = map_of kvs k"
| "member v k = None"

text \<open>The member \<open>k\<close> when it is present and truthy: the test \<^verbatim>\<open>if (v.k)\<close>.\<close>

definition truthy_member :: "json \<Rightarrow> string \<Rightarrow> json option" where
  "truthy_member v k =
     (case member v k of
        None \<Rightarrow> None
      | Some x \<Rightarrow> if truthy x then Some x else None)"

text \<open>Optional chaining \<^verbatim>\<open>v?.k\<close>: \<^verbatim>\<open>undefined\<close> on \<^verbatim>\<open>null\<close> and \<^verbatim>\<open>undefined\<close>.\<close>

fun opt_chain :: "json option \<Rightarrow> string \<Rightarrow> json option" where
  "opt_chain None k = None"
| "opt_chain (Some JNull) k = None"
| "opt_chain (Some v) k = member v k"

section \<open>Errors, requests, results\<close>

datatype error_reason = CONFIG_ERROR | TOO_MANY_REQUESTS | PROMPT_FLAGGED

text \<open>A template literal: its fixed parts and the values it interpolates.\<close>

datatype msg_part = Lit string | Interp json

text \<open>
  What a \<^verbatim>\<open>throw\<close> carries. \<open>JsError\<close> is \<^verbatim>\<open>new Error(message)\<close>, \<open>TypeError\<close>
  and \<open>SyntaxError\<close> are the runtime's (a property read on \<^verbatim>\<open>null\<close>, a call of
  something that is no function, a body that is not JSON), \<open>Foreign\<close> is any error
  of a collaborator (the network, the settings parser).

  Modelled from the spec: \<open>GenError\<close>, \<open>NotFoundError\<close> and \<open>UnsupportedAbilityError\<close>
  are declared outside the given sources (\<^verbatim>\<open>@/server/lib/types\<close>,
  \<^verbatim>\<open>../types/provider\<close>); a \<open>GenError\<close> keeps the reason it was constructed with.

  \<open>err_status\<close> is the error object's \<^verbatim>\<open>status\<close> property (\<open>None\<close> when it has
  none, as for every error the adapters construct themselves).
\<close>

datatype error_kind =
    GenError error_reason
  | JsError "msg_part list"
  | TypeError
  | SyntaxError
  | NotFoundError
  | UnsupportedAbilityError
  | Foreign string

datatype thrown = Thrown (err_kind: error_kind) (err_status: "json option")

datatype ability = T2I | I2I

record model_descriptor =
  model_id :: string
  model_name :: string
  model_ability :: ability
  maxInputImages :: nat
  supportedAspectRatios :: "string list"

text \<open>
  \<^verbatim>\<open>GenerationRequest\<close>. \<open>inputImages\<close> is the request's \<^verbatim>\<open>images\<close> field (the
  result has a field of that name too); \<open>None\<close> is an absent field.
\<close>

record generation_request =
  modelId :: string
  prompt :: string
  aspectRatio :: "string option"
  inputImages :: "string list option"
  n :: "int option"

record generation_result =
  images :: "string list"
  errorReason :: "error_reason option"

record parsed_settings =
  baseURL :: string
  apiKey :: string

record http_request =
  url :: string
  http_method :: string
  headers :: "(string \<times> string) list"
  body :: json

text \<open>
  A \<^verbatim>\<open>Response\<close> whose body has arrived: \<open>body_text\<close> is \<^verbatim>\<open>response.text()\<close>,
  \<open>body_json\<close> is the body parsed as JSON, \<open>None\<close> when it is not JSON
  (\<^verbatim>\<open>response.json()\<close> rejects and \<^verbatim>\<open>JSON.parse\<close> throws a \<open>SyntaxError\<close>).
\<close>

record response =
  status :: int
  statusText :: string
  body_text :: string
  body_json :: "json option"

text \<open>\<^verbatim>\<open>response.ok\<close>: by the Fetch standard, a status from 200 to 299.\<close>

definition ok :: "response \<Rightarrow> bool" where
  "ok r = (200 \<le> status r \<and> status r \<le> 299)"

text \<open>What a call does to the outside world, in order.\<close>

datatype event =
    HttpPost http_request
  | FetchUrl json
  | DecodeBase64 json

text \<open>
  The collaborators of the adapters that are not among the sources, as parameters:
  the settings parser (\<^verbatim>\<open>doParseSettings\<close> applied to the provider's schema), the
  HTTP client (\<^verbatim>\<open>fetch\<close>), and the two helpers of \<^verbatim>\<open>@/server/lib/util\<close>. Each
  either throws (\<open>Inl\<close>) or returns (\<open>Inr\<close>), and each is a function of its
  argument: within one call the same URL fetched twice gives the same answer.
\<close>

record 's env =
  doParseSettings :: "'s \<Rightarrow> thrown + parsed_settings"
  fetch :: "http_request \<Rightarrow> thrown + response"
  fetchUrlToDataURI :: "json \<Rightarrow> thrown + string"
  base64ToDataURI :: "json \<Rightarrow> thrown + string"

text \<open>What the callback of \<^verbatim>\<open>imageData.map\<close> returns for one entry.\<close>

datatype resolved = DataURI string | Null | Undefined

text \<open>\<^verbatim>\<open>results.filter(Boolean)\<close>: \<^verbatim>\<open>null\<close>, \<^verbatim>\<open>undefined\<close> and the empty string go.\<close>

fun filter_Boolean :: "resolved list \<Rightarrow> string list" where
  "filter_Boolean [] = []"
| "filter_Boolean (DataURI s # rs) = (if s = [] then filter_Boolean rs else s # filter_Boolean rs)"
| "filter_Boolean (Null # rs) = filter_Boolean rs"
| "filter_Boolean (Undefined # rs) = filter_Boolean rs"

text \<open>
  \<^verbatim>\<open>Promise.all\<close> over the promises of the callbacks: the values in order, or the
  first rejection. Every rejection of these callbacks happens before their first
  \<^verbatim>\<open>await\<close>, so the first in the list is the first in time.
\<close>

fun promise_all :: "(thrown + 'a) list \<Rightarrow> thrown + 'a list" where
  "promise_all [] = Inr []"
| "promise_all (Inl e # ps) = Inl e"
| "promise_all (Inr v # ps) = (case promise_all ps of Inl e \<Rightarrow> Inl e | Inr vs \<Rightarrow> Inr (v # vs))"

text \<open>\<^verbatim>\<open>return base64ToDataURI(b)\<close> inside the callback.\<close>

definition decode :: "'s env \<Rightarrow> json \<Rightarrow> event list \<times> (thrown + resolved)" where
  "decode env b =
     ([DecodeBase64 b],
      case base64ToDataURI env b of Inl e \<Rightarrow> Inl e | Inr d \<Rightarrow> Inr (DataURI d))"

text \<open>\<^verbatim>\<open>try { return await fetchUrlToDataURI(u) } catch { return null }\<close>.\<close>

definition fetch_or_null :: "'s env \<Rightarrow> json \<Rightarrow> event list \<times> (thrown + resolved)" where
  "fetch_or_null env u =
     ([FetchUrl u],
      case fetchUrlToDataURI env u of Inl e \<Rightarrow> Inr Null | Inr d \<Rightarrow> Inr (DataURI d))"

text \<open>
  The direct entry formats, shared by both adapters (\<^verbatim>\<open>doubao.ts\<close> lines 144-164,
  Qwen lines 343-365), for an entry that is not \<^verbatim>\<open>null\<close>.
\<close>

definition resolve_direct :: "'s env \<Rightarrow> json \<Rightarrow> event list \<times> (thrown + resolved)" where
  "resolve_direct env entry =
     (case truthy_member entry ''b64_json'' of
        Some b \<Rightarrow> decode env b
      | None \<Rightarrow>
     (case truthy_member entry ''url'' of
        Some u \<Rightarrow> fetch_or_null env u
      | None \<Rightarrow>
     (case truthy_member entry ''image_url'' of
        Some u \<Rightarrow> fetch_or_null env u
      | None \<Rightarrow>
     (case truthy_member entry ''base64'' of
        Some b \<Rightarrow> decode env b
      | None \<Rightarrow> ([], Inr Undefined)))))"

text \<open>
  The runtime's errors, which carry no \<^verbatim>\<open>status\<close>: a \<open>TypeError\<close> for a property
  read on \<^verbatim>\<open>null\<close>, a call of a value that is no function and a
  \<^verbatim>\<open>for ... of\<close> over a value that is not iterable; a \<open>SyntaxError\<close> for a body
  that is not JSON.
\<close>

definition typeError :: thrown where
  "typeError = Thrown TypeError None"

definition syntaxError :: thrown where
  "syntaxError = Thrown SyntaxError None"

text \<open>\<^verbatim>\<open>x && Array.isArray(x)\<close>: the elements when \<open>x\<close> is an array (arrays are truthy).\<close>

fun array_of :: "json option \<Rightarrow> json list option" where
  "array_of (Some (JArr xs)) = Some xs"
| "array_of v = None"

text \<open>
  \<^verbatim>\<open>Promise.all(imageData.map(callback))\<close> followed by \<^verbatim>\<open>filter(Boolean)\<close>: every
  callback runs (its effects happen in the order of the entries), and one rejection
  rejects the whole.
\<close>

definition gather :: "(event list \<times> (thrown + resolved)) list \<Rightarrow> event list \<times> (thrown + string list)" where
  "gather rs =
     (concat (map fst rs),
      case promise_all (map snd rs) of
        Inl e \<Rightarrow> Inl e
      | Inr vs \<Rightarrow> Inr (filter_Boolean vs))"

text \<open>\<^verbatim>\<open>return { images }\<close> once the promise of the images has settled.\<close>

fun returned :: "thrown + string list \<Rightarrow> thrown + generation_result" where
  "returned (Inl e) = Inl e"
| "returned (Inr imgs) = Inr \<lparr>images = imgs, errorReason = None\<rparr>"

text \<open>\<^verbatim>\<open>request.images && request.images.length > 0\<close>.\<close>

definition has_images :: "generation_request \<Rightarrow> bool" where
  "has_images request = (case inputImages request of None \<Rightarrow> False | Some imgs \<Rightarrow> imgs \<noteq> [])"

text \<open>
  Modelled from the spec: \<^verbatim>\<open>findModel\<close> of \<^verbatim>\<open>../types/provider\<close> is not among the
  sources. Section 4.2 of the spec: look the model up in the provider's catalog by
  \<^verbatim>\<open>modelId\<close>; fail with \<open>NotFoundError\<close> if absent.
\<close>

definition findModel :: "model_descriptor list \<Rightarrow> string \<Rightarrow> thrown + model_descriptor" where
  "findModel models mid =
     (case find (\<lambda>m. model_id m = mid) models of
        None \<Rightarrow> Inl (Thrown NotFoundError None)
      | Some m \<Rightarrow> Inr m)"

text \<open>
  Modelled from the spec: \<^verbatim>\<open>chooseAblility\<close> of \<^verbatim>\<open>../types/provider\<close> is not among
  the sources. Section 4.2 of the spec: a request that supplies input images needs a
  model whose ability permits image input, any other request falls back to
  text-to-image; an ability the model does not support fails with
  \<open>UnsupportedAbilityError\<close>.
\<close>

definition chooseAblility :: "generation_request \<Rightarrow> ability \<Rightarrow> thrown + ability" where
  "chooseAblility request a =
     (if has_images request
      then (if a = I2I then Inr I2I else Inl (Thrown UnsupportedAbilityError None))
      else Inr T2I)"

section \<open>The Doubao adapter\<close>

definition doubao_aspectRatioSizes :: "(string \<times> string) list" where
  "doubao_aspectRatioSizes =
     [(''1:1'', ''2048x2048''),
      (''16:9'', ''2560x1440''),
      (''9:16'', ''1440x2560''),
      (''4:3'', ''2304x1728''),
      (''3:4'', ''1728x2304'')]"

definition doubao_models :: "model_descriptor list" where
  "doubao_models =
     [\<lparr>model_id = ''doubao-seedream-4-5-251128'',
       model_name = ''SeedDream4.5'',
       model_ability = I2I,
       maxInputImages = 14,
       supportedAspectRatios = [''1:1'', ''16:9'', ''9:16'', ''4:3'', ''3:4'']\<rparr>]"

text \<open>
  \<^verbatim>\<open>let size = null; if (request.aspectRatio) size = aspectRatioSizes[request.aspectRatio]\<close>.
  \<open>None\<close> is \<^verbatim>\<open>undefined\<close> (a ratio the table does not have), which
  \<^verbatim>\<open>JSON.stringify\<close> leaves out of the body.
\<close>

definition doubao_size :: "generation_request \<Rightarrow> json option" where
  "doubao_size request =
     (case aspectRatio request of
        None \<Rightarrow> Some JNull
      | Some a \<Rightarrow>
          if a = [] then Some JNull
          else map_option JStr (map_of doubao_aspectRatioSizes a))"

text \<open>\<^verbatim>\<open>request.n && request.n > 1\<close>.\<close>

definition batching :: "generation_request \<Rightarrow> bool" where
  "batching request = (case n request of None \<Rightarrow> False | Some k \<Rightarrow> k \<noteq> 0 \<and> 1 < k)"

text \<open>The object \<^verbatim>\<open>requestBody\<close> as \<^verbatim>\<open>JSON.stringify\<close> writes it (lines 74-92).\<close>

definition doubao_requestBody :: "generation_request \<Rightarrow> json option \<Rightarrow> json" where
  "doubao_requestBody request sz =
     JObj
       ([(''model'', JStr (modelId request)),
         (''prompt'', JStr (prompt request))]
        @ (case sz of None \<Rightarrow> [] | Some s \<Rightarrow> [(''size'', s)])
        @ [(''response_format'', JStr ''b64_json''),
           (''sequential_image_generation'',
              JStr (if batching request then ''auto'' else ''disabled''))]
        @ (case n request of
             None \<Rightarrow> []
           | Some k \<Rightarrow>
               if batching request
               then [(''sequential_image_generation_options'',
                        JObj [(''max_images'', JNum (min k 15))])]
               else [])
        @ (case inputImages request of
             None \<Rightarrow> []
           | Some imgs \<Rightarrow>
               if imgs \<noteq> [] then [(''image'', JArr (map JStr imgs))] else []))"

definition doubao_httpRequest :: "parsed_settings \<Rightarrow> generation_request \<Rightarrow> json option \<Rightarrow> http_request" where
  "doubao_httpRequest s request sz =
     \<lparr>url = baseURL s @ ''/images/generations'',
      http_method = ''POST'',
      headers = [(''Content-Type'', ''application/json''),
                 (''Authorization'', ''Bearer '' @ apiKey s)],
      body = doubao_requestBody request sz\<rparr>"

text \<open>
  \<^verbatim>\<open>(errorData as any)?.error?.message || response.statusText\<close>, where
  \<^verbatim>\<open>errorData = await response.json().catch(() => ({}))\<close>.
\<close>

definition doubao_errorMessage :: "response \<Rightarrow> json" where
  "doubao_errorMessage r =
     (let errorData = (case body_json r of None \<Rightarrow> JObj [] | Some j \<Rightarrow> j) in
      case opt_chain (opt_chain (Some errorData) ''error'') ''message'' of
        None \<Rightarrow> JStr (statusText r)
      | Some m \<Rightarrow> if truthy m then m else JStr (statusText r))"

text \<open>The branch \<^verbatim>\<open>if (!response.ok)\<close> (lines 103-126).\<close>

definition doubao_notOk :: "response \<Rightarrow> thrown + generation_result" where
  "doubao_notOk r =
     (if status r = 401 \<or> status r = 404
        then Inr \<lparr>images = [], errorReason = Some CONFIG_ERROR\<rparr>
      else if status r = 429
        then Inr \<lparr>images = [], errorReason = Some TOO_MANY_REQUESTS\<rparr>
      else if status r = 400
        then Inr \<lparr>images = [], errorReason = Some PROMPT_FLAGGED\<rparr>
      else Inl (Thrown (JsError [Lit ''Doubao API error: '', Interp (doubao_errorMessage r)]) None))"

text \<open>The probe for the array of entries (lines 130-139).\<close>

definition doubao_imageData :: "json \<Rightarrow> thrown + json list" where
  "doubao_imageData generateResult =
     (case array_of (Some generateResult) of
        Some xs \<Rightarrow> Inr xs
      | None \<Rightarrow>
          if generateResult = JNull then Inl typeError
          else
     (case array_of (member generateResult ''data'') of
        Some xs \<Rightarrow> Inr xs
      | None \<Rightarrow>
     (case array_of (member generateResult ''images'') of
        Some xs \<Rightarrow> Inr xs
      | None \<Rightarrow>
     (case array_of (member generateResult ''output'') of
        Some xs \<Rightarrow> Inr xs
      | None \<Rightarrow> Inr []))))"

text \<open>The callback of \<^verbatim>\<open>imageData.map\<close> (lines 143-165).\<close>

definition doubao_resolve :: "'s env \<Rightarrow> json \<Rightarrow> event list \<times> (thrown + resolved)" where
  "doubao_resolve env entry =
     (if entry = JNull then ([], Inl typeError) else resolve_direct env entry)"

text \<open>From \<^verbatim>\<open>await response.json()\<close> to the \<^verbatim>\<open>return\<close> (lines 128-169).\<close>

definition doubao_onOk :: "'s env \<Rightarrow> response \<Rightarrow> event list \<times> (thrown + generation_result)" where
  "doubao_onOk env r =
     (case body_json r of
        None \<Rightarrow> ([], Inl syntaxError)
      | Some generateResult \<Rightarrow>
          (case doubao_imageData generateResult of
             Inl e \<Rightarrow> ([], Inl e)
           | Inr imageData \<Rightarrow>
               (fst (gather (map (doubao_resolve env) imageData)),
                returned (snd (gather (map (doubao_resolve env) imageData))))))"

text \<open>The \<^verbatim>\<open>try\<close> block (lines 67-169).\<close>

definition doubao_try ::
  "'s env \<Rightarrow> generation_request \<Rightarrow> parsed_settings \<Rightarrow> json option \<Rightarrow> event list \<times> (thrown + generation_result)" where
  "doubao_try env request s sz =
     (case findModel doubao_models (modelId request) of
        Inl e \<Rightarrow> ([], Inl e)
      | Inr m \<Rightarrow>
          (case chooseAblility request (model_ability m) of
             Inl e \<Rightarrow> ([], Inl e)
           | Inr a \<Rightarrow>
               (case fetch env (doubao_httpRequest s request sz) of
                  Inl e \<Rightarrow> ([HttpPost (doubao_httpRequest s request sz)], Inl e)
                | Inr r \<Rightarrow>
                    if \<not> ok r
                    then ([HttpPost (doubao_httpRequest s request sz)], doubao_notOk r)
                    else (HttpPost (doubao_httpRequest s request sz) # fst (doubao_onOk env r),
                          snd (doubao_onOk env r)))))"

text \<open>The \<^verbatim>\<open>catch (e)\<close> block (lines 170-178).\<close>

definition doubao_catch :: "thrown \<Rightarrow> thrown + generation_result" where
  "doubao_catch e =
     (if err_status e = Some (JNum 401) \<or> err_status e = Some (JNum 404)
      then Inr \<lparr>images = [], errorReason = Some CONFIG_ERROR\<rparr>
      else Inl e)"

text \<open>
  \<^verbatim>\<open>Doubao.generate\<close>: the settings are parsed and the size is chosen before the
  \<^verbatim>\<open>try\<close> block. The result is the trace of effects and either the thrown error
  (the promise rejects) or the returned \<^verbatim>\<open>GenerationResult\<close>.
\<close>

definition doubao_generate ::
  "'s env \<Rightarrow> generation_request \<Rightarrow> 's \<Rightarrow> event list \<times> (thrown + generation_result)" where
  "doubao_generate env request settings =
     (case doParseSettings env settings of
        Inl e \<Rightarrow> ([], Inl e)
      | Inr s \<Rightarrow>
          (case snd (doubao_try env request s (doubao_size request)) of
             Inl e \<Rightarrow> (fst (doubao_try env request s (doubao_size request)), doubao_catch e)
           | Inr res \<Rightarrow> (fst (doubao_try env request s (doubao_size request)), Inr res)))"

section \<open>The Qwen adapter\<close>

definition qwen_aspectRatioSizes :: "(string \<times> string) list" where
  "qwen_aspectRatioSizes =
     [(''1:1'', ''1024*1024''),
      (''16:9'', ''1792*1024''),
      (''9:16'', ''1024*1792''),
      (''4:3'', ''1536*1024''),
      (''3:4'', ''1024*1536'')]"

definition qwen_models :: "model_descriptor list" where
  "qwen_models =
     [\<lparr>model_id = ''qwen-image'',
       model_name = ''Qwen Image'',
       model_ability = I2I,
       maxInputImages = 3,
       supportedAspectRatios = [''1:1'', ''16:9'', ''9:16'', ''4:3'', ''3:4'']\<rparr>,
      \<lparr>model_id = ''qwen-image-max'',
       model_name = ''Qwen Image Max'',
       model_ability = T2I,
       maxInputImages = 0,
       supportedAspectRatios = [''1:1'', ''16:9'', ''9:16'', ''4:3'', ''3:4'']\<rparr>]"

text \<open>\<^verbatim>\<open>request.aspectRatio ? aspectRatioSizes[request.aspectRatio] : "1024*1024"\<close>.\<close>

definition qwen_size :: "generation_request \<Rightarrow> json option" where
  "qwen_size request =
     (case aspectRatio request of
        None \<Rightarrow> Some (JStr ''1024*1024'')
      | Some a \<Rightarrow>
          if a = [] then Some (JStr ''1024*1024'')
          else map_option JStr (map_of qwen_aspectRatioSizes a))"

text \<open>The object \<^verbatim>\<open>requestBody\<close> as \<^verbatim>\<open>JSON.stringify\<close> writes it (Qwen lines 252-270).\<close>

definition qwen_requestBody :: "generation_request \<Rightarrow> json" where
  "qwen_requestBody request =
     JObj
       [(''model'', JStr (modelId request)),
        (''input'',
           JObj [(''messages'',
                    JArr [JObj [(''role'', JStr ''user''),
                                (''content'', JArr [JObj [(''text'', JStr (prompt request))]])]])]),
        (''parameters'',
           JObj ([(''watermark'', JBool False)]
                 @ (case qwen_size request of None \<Rightarrow> [] | Some s \<Rightarrow> [(''size'', s)])))]"

definition qwen_httpRequest :: "parsed_settings \<Rightarrow> generation_request \<Rightarrow> http_request" where
  "qwen_httpRequest s request =
     \<lparr>url = baseURL s @ ''/services/aigc/multimodal-generation/generation'',
      http_method = ''POST'',
      headers = [(''Content-Type'', ''application/json''),
                 (''Authorization'', ''Bearer '' @ apiKey s)],
      body = qwen_requestBody request\<rparr>"

text \<open>
  \<^verbatim>\<open>new Error(`Qwen API error: ${response.status} ${response.statusText} - ${errorText}`)\<close>.
\<close>

definition qwen_apiError :: "response \<Rightarrow> thrown" where
  "qwen_apiError r =
     Thrown (JsError [Lit ''Qwen API error: '', Interp (JNum (status r)), Lit '' '',
                      Interp (JStr (statusText r)), Lit '' - '', Interp (JStr (body_text r))])
            None"

text \<open>
  The branch \<^verbatim>\<open>if (!response.ok)\<close> (Qwen lines 282-297): what it throws.
  \<^verbatim>\<open>JSON.parse(errorText)\<close> throws on a body that is not JSON, and
  \<^verbatim>\<open>errorResp.code\<close> on the body \<^verbatim>\<open>null\<close>.
\<close>

definition qwen_notOk :: "response \<Rightarrow> thrown" where
  "qwen_notOk r =
     (if status r = 401 \<or> status r = 404 then Thrown (GenError CONFIG_ERROR) None
      else if status r = 429 then Thrown (GenError TOO_MANY_REQUESTS) None
      else if status r = 400 then
        (case body_json r of
           None \<Rightarrow> syntaxError
         | Some errorResp \<Rightarrow>
             if errorResp = JNull then typeError
             else if member errorResp ''code'' = Some (JStr ''InvalidParameter'')
               then Thrown (GenError PROMPT_FLAGGED) None
             else qwen_apiError r)
      else qwen_apiError r)"

text \<open>
  The probe for the array of entries (Qwen lines 301-310). The second shape takes
  \<^verbatim>\<open>output.images\<close> without asking whether it is an array: \<^verbatim>\<open>imageData.map\<close> on
  anything else is a call of \<^verbatim>\<open>undefined\<close>.
\<close>

definition qwen_imageData_rest :: "json \<Rightarrow> thrown + json list" where
  "qwen_imageData_rest generateResult =
     (case array_of (member generateResult ''data'') of
        Some xs \<Rightarrow> Inr xs
      | None \<Rightarrow>
     (case array_of (member generateResult ''images'') of
        Some xs \<Rightarrow> Inr xs
      | None \<Rightarrow> Inr []))"

definition qwen_imageData :: "json \<Rightarrow> thrown + json list" where
  "qwen_imageData generateResult =
     (if generateResult = JNull then Inl typeError
      else
     (case truthy_member generateResult ''output'' of
        None \<Rightarrow> qwen_imageData_rest generateResult
      | Some output \<Rightarrow>
          (case array_of (member output ''choices'') of
             Some xs \<Rightarrow> Inr xs
           | None \<Rightarrow>
               (case truthy_member output ''images'' of
                  None \<Rightarrow> qwen_imageData_rest generateResult
                | Some imgs \<Rightarrow>
                    (case array_of (Some imgs) of
                       Some xs \<Rightarrow> Inr xs
                     | None \<Rightarrow> Inl typeError)))))"

text \<open>
  \<^verbatim>\<open>for (const item of content)\<close>: an array gives its elements, a string its
  characters (each a string of length one), anything else is not iterable.
\<close>

fun iterate :: "json \<Rightarrow> thrown + json list" where
  "iterate (JArr xs) = Inr xs"
| "iterate (JStr s) = Inr (map (\<lambda>c. JStr [c]) s)"
| "iterate v = Inl typeError"

text \<open>
  A truthy \<^verbatim>\<open>item.image\<close> (Qwen lines 319-330): \<^verbatim>\<open>item.image.startsWith('http')\<close>
  is a call of \<^verbatim>\<open>undefined\<close> unless the value is a string.
\<close>

fun qwen_item_image :: "'s env \<Rightarrow> json \<Rightarrow> event list \<times> (thrown + resolved)" where
  "qwen_item_image env (JStr s) =
     (if take 4 s = ''http'' then fetch_or_null env (JStr s) else decode env (JStr s))"
| "qwen_item_image env v = ([], Inl typeError)"

text \<open>
  The loop over \<^verbatim>\<open>image.message.content\<close> (Qwen lines 317-340): \<open>Some\<close> is the
  \<^verbatim>\<open>return\<close> (or the throw) of the first item that has one, \<open>None\<close> is the loop
  running out.
\<close>

fun qwen_content_loop :: "'s env \<Rightarrow> json list \<Rightarrow> (event list \<times> (thrown + resolved)) option" where
  "qwen_content_loop env [] = None"
| "qwen_content_loop env (item # items) =
     (if item = JNull then Some ([], Inl typeError)
      else
     (case truthy_member item ''image'' of
        Some v \<Rightarrow> Some (qwen_item_image env v)
      | None \<Rightarrow>
     (case truthy_member item ''image_url'' of
        Some u \<Rightarrow> Some (fetch_or_null env u)
      | None \<Rightarrow> qwen_content_loop env items)))"

text \<open>The callback of \<^verbatim>\<open>imageData.map\<close> (Qwen lines 313-366).\<close>

definition qwen_resolve :: "'s env \<Rightarrow> json \<Rightarrow> event list \<times> (thrown + resolved)" where
  "qwen_resolve env entry =
     (if entry = JNull then ([], Inl typeError)
      else
     (case truthy_member entry ''message'' of
        None \<Rightarrow> resolve_direct env entry
      | Some msg \<Rightarrow>
     (case truthy_member msg ''content'' of
        None \<Rightarrow> resolve_direct env entry
      | Some content \<Rightarrow>
     (case iterate content of
        Inl e \<Rightarrow> ([], Inl e)
      | Inr items \<Rightarrow>
     (case qwen_content_loop env items of
        Some res \<Rightarrow> res
      | None \<Rightarrow> resolve_direct env entry)))))"

text \<open>From \<^verbatim>\<open>await response.json()\<close> to the \<^verbatim>\<open>return\<close> (Qwen lines 299-371).\<close>

definition qwen_onOk :: "'s env \<Rightarrow> response \<Rightarrow> event list \<times> (thrown + generation_result)" where
  "qwen_onOk env r =
     (case body_json r of
        None \<Rightarrow> ([], Inl syntaxError)
      | Some generateResult \<Rightarrow>
          (case qwen_imageData generateResult of
             Inl e \<Rightarrow> ([], Inl e)
           | Inr imageData \<Rightarrow>
               (fst (gather (map (qwen_resolve env) imageData)),
                returned (snd (gather (map (qwen_resolve env) imageData))))))"

text \<open>
  The \<^verbatim>\<open>try\<close> block (Qwen lines 248-371). It starts with the settings, and it
  calls neither \<^verbatim>\<open>findModel\<close> nor \<^verbatim>\<open>chooseAblility\<close>, which the file imports.
\<close>

definition qwen_try ::
  "'s env \<Rightarrow> generation_request \<Rightarrow> 's \<Rightarrow> event list \<times> (thrown + generation_result)" where
  "qwen_try env request settings =
     (case doParseSettings env settings of
        Inl e \<Rightarrow> ([], Inl e)
      | Inr s \<Rightarrow>
          (case fetch env (qwen_httpRequest s request) of
             Inl e \<Rightarrow> ([HttpPost (qwen_httpRequest s request)], Inl e)
           | Inr r \<Rightarrow>
               if \<not> ok r
               then ([HttpPost (qwen_httpRequest s request)], Inl (qwen_notOk r))
               else (HttpPost (qwen_httpRequest s request) # fst (qwen_onOk env r),
                     snd (qwen_onOk env r))))"

text \<open>
  The \<^verbatim>\<open>catch (error)\<close> block (Qwen lines 372-380):
  \<^verbatim>\<open>error instanceof GenError\<close> and \<^verbatim>\<open>error.reason\<close>.
\<close>

fun qwen_catch :: "thrown \<Rightarrow> thrown + generation_result" where
  "qwen_catch (Thrown (GenError reason) st) = Inr \<lparr>images = [], errorReason = Some reason\<rparr>"
| "qwen_catch e = Inl e"

definition qwen_generate ::
  "'s env \<Rightarrow> generation_request \<Rightarrow> 's \<Rightarrow> event list \<times> (thrown + generation_result)" where
  "qwen_generate env request settings =
     (case snd (qwen_try env request settings) of
        Inl e \<Rightarrow> (fst (qwen_try env request settings), qwen_catch e)
      | Inr res \<Rightarrow> (fst (qwen_try env request settings), Inr res))"

section \<open>The password update\<close>

text \<open>
  \<^verbatim>\<open>src/server/service/auth/index.ts\<close> and the route of
  \<^verbatim>\<open>src/server/api/routes/settings.ts\<close>. An error is known by its
  \<^verbatim>\<open>message\<close> (\<open>None\<close> when it has none).
\<close>

datatype exn = Exn (exn_message: "string option")

record account =
  account_id :: string
  account_userId :: string
  account_password :: "string option"

record update_password_request =
  currentPassword :: string
  newPassword :: string

record update_password_result =
  success :: bool
  error :: "string option"
  errorCode :: "string option"

text \<open>
  The collaborators, as parameters over the state \<open>'db\<close> of the database:
  \<^verbatim>\<open>getContext()\<close> hands out the database, \<open>select_account\<close> is
  \<^verbatim>\<open>db.select().from(account).where(eq(account.userId, userId)).limit(1)\<close>,
  \<open>update_account\<close> is
  \<^verbatim>\<open>db.update(account).set({ password }).where(eq(account.id, id))\<close> and returns
  the database after the write; an update that throws has written nothing.
  \<open>verifyPassword\<close> and \<open>hashPassword\<close> are those of \<^verbatim>\<open>@/server/lib/auth\<close>,
  \<open>ok_json\<close> is the value of \<^verbatim>\<open>ok()\<close> of \<^verbatim>\<open>../util\<close>, and
  \<open>validation_error\<close> is the body with which \<^verbatim>\<open>zValidator\<close> of
  \<^verbatim>\<open>@hono/zod-validator\<close> answers a request body the schema refuses.
\<close>

record 'db auth_env =
  getContext :: "exn + 'db"
  select_account :: "'db \<Rightarrow> string \<Rightarrow> exn + account list"
  verifyPassword :: "string \<Rightarrow> string \<Rightarrow> exn + bool"
  hashPassword :: "string \<Rightarrow> exn + string"
  update_account :: "'db \<Rightarrow> string \<Rightarrow> string \<Rightarrow> exn + 'db"
  ok_json :: json
  validation_error :: "json \<Rightarrow> json"

definition accountNotFound :: update_password_result where
  "accountNotFound =
     \<lparr>success = False, error = Some ''Account not found'', errorCode = Some ''accountNotFound''\<rparr>"

definition socialLogin :: update_password_result where
  "socialLogin =
     \<lparr>success = False,
      error = Some ''This account uses social login and cannot change password'',
      errorCode = Some ''socialLoginCannotChangePassword''\<rparr>"

definition currentPasswordIncorrect :: update_password_result where
  "currentPasswordIncorrect =
     \<lparr>success = False,
      error = Some ''Current password is incorrect'',
      errorCode = Some ''currentPasswordIncorrect''\<rparr>"

text \<open>\<^verbatim>\<open>error.message || "Failed to update password"\<close>.\<close>

definition message_or_default :: "exn \<Rightarrow> string" where
  "message_or_default e =
     (case exn_message e of
        None \<Rightarrow> ''Failed to update password''
      | Some m \<Rightarrow> if m = [] then ''Failed to update password'' else m)"

text \<open>
  The \<^verbatim>\<open>try\<close> block of \<^verbatim>\<open>updatePassword\<close> (lines 28-80 of the service): the
  database after the call and the result, or the error thrown.
  \<^verbatim>\<open>!userAccount.password\<close> holds for \<^verbatim>\<open>null\<close> and for the empty string.
\<close>

definition updatePassword_try ::
  "'db auth_env \<Rightarrow> 'db \<Rightarrow> update_password_request \<Rightarrow> string \<Rightarrow> exn + ('db \<times> update_password_result)" where
  "updatePassword_try env db req userId =
     (case select_account env db userId of
        Inl e \<Rightarrow> Inl e
      | Inr accounts \<Rightarrow>
     (case accounts of
        [] \<Rightarrow> Inr (db, accountNotFound)
      | userAccount # others \<Rightarrow>
     (case account_password userAccount of
        None \<Rightarrow> Inr (db, socialLogin)
      | Some pw \<Rightarrow>
          if pw = [] then Inr (db, socialLogin)
          else
     (case verifyPassword env pw (currentPassword req) of
        Inl e \<Rightarrow> Inl e
      | Inr isValidPassword \<Rightarrow>
          if \<not> isValidPassword then Inr (db, currentPasswordIncorrect)
          else
     (case hashPassword env (newPassword req) of
        Inl e \<Rightarrow> Inl e
      | Inr hashedNewPassword \<Rightarrow>
     (case update_account env db (account_id userAccount) hashedNewPassword of
        Inl e \<Rightarrow> Inl e
      | Inr db' \<Rightarrow> Inr (db', \<lparr>success = True, error = None, errorCode = None\<rparr>)))))))"

text \<open>
  \<^verbatim>\<open>updatePassword\<close>: \<^verbatim>\<open>getContext()\<close> is called before the \<^verbatim>\<open>try\<close> block, so
  its error leaves the function; the \<^verbatim>\<open>catch\<close> block turns every other error into
  a result.
\<close>

definition updatePassword ::
  "'db auth_env \<Rightarrow> update_password_request \<Rightarrow> string \<Rightarrow> exn + ('db \<times> update_password_result)" where
  "updatePassword env req userId =
     (case getContext env of
        Inl e \<Rightarrow> Inl e
      | Inr db \<Rightarrow>
          (case updatePassword_try env db req userId of
             Inl e \<Rightarrow>
               Inr (db, \<lparr>success = False, error = Some (message_or_default e), errorCode = None\<rparr>)
           | Inr res \<Rightarrow> Inr res))"

record reply =
  reply_status :: int
  reply_json :: json

text \<open>A member whose value is \<^verbatim>\<open>undefined\<close> is left out of the JSON sent.\<close>

definition opt_member :: "string \<Rightarrow> string option \<Rightarrow> (string \<times> json) list" where
  "opt_member k v = (case v of None \<Rightarrow> [] | Some s \<Rightarrow> [(k, JStr s)])"

text \<open>A member that is a string, as \<^verbatim>\<open>z.string()\<close> asks.\<close>

fun as_string :: "json option \<Rightarrow> string option" where
  "as_string (Some (JStr s)) = Some s"
| "as_string v = None"

text \<open>
  \<^verbatim>\<open>UpdatePasswordSchema\<close> (lines 8-11 of the service) applied to a JSON body: the
  request it parses to, or \<open>None\<close> when it refuses the body. \<^verbatim>\<open>currentPassword\<close>
  is a string of at least one character, \<^verbatim>\<open>newPassword\<close> a string of 6 to 72;
  other members are dropped, and a body that is no object has neither member.
\<close>

definition UpdatePasswordSchema :: "json \<Rightarrow> update_password_request option" where
  "UpdatePasswordSchema b =
     (case as_string (member b ''currentPassword'') of
        None \<Rightarrow> None
      | Some c \<Rightarrow>
          (case as_string (member b ''newPassword'') of
             None \<Rightarrow> None
           | Some p \<Rightarrow>
               if 1 \<le> length c \<and> 6 \<le> length p \<and> length p \<le> 72
               then Some \<lparr>currentPassword = c, newPassword = p\<rparr>
               else None))"

text \<open>
  The handler of \<^verbatim>\<open>POST /settings/updatePassword\<close> behind its validator (lines
  22-45 of the routes), for the JSON body \<open>b\<close> of a request that the
  \<^verbatim>\<open>authMiddleware\<close> has let through for the user \<open>userId\<close>.
  \<^verbatim>\<open>zValidator("json", UpdatePasswordSchema)\<close> answers a body the schema refuses
  with status 400 itself, and the handler does not run. A request the middleware
  turns away, and one whose body is not JSON at all, do not reach the handler either
  and are not modelled.
\<close>

definition updatePassword_route ::
  "'db auth_env \<Rightarrow> json \<Rightarrow> string \<Rightarrow> reply" where
  "updatePassword_route env b userId =
     (case UpdatePasswordSchema b of
        None \<Rightarrow> \<lparr>reply_status = 400, reply_json = validation_error env b\<rparr>
      | Some req \<Rightarrow>
     (case updatePassword env req userId of
        Inl e \<Rightarrow>
          \<lparr>reply_status = 500,
           reply_json = JObj [(''code'', JStr ''error''), (''message'', JStr (message_or_default e))]\<rparr>
      | Inr res \<Rightarrow>
          if \<not> success (snd res)
          then \<lparr>reply_status = 400,
                reply_json =
                  JObj ([(''code'', JStr ''error'')]
                        @ opt_member ''errorCode'' (errorCode (snd res))
                        @ opt_member ''message'' (error (snd res)))\<rparr>
          else \<lparr>reply_status = 200, reply_json = ok_json env\<rparr>))"

section \<open>Reading the trace\<close>

text \<open>The bodies of the HTTP requests a call has sent, in order.\<close>

fun posted_bodies :: "event list \<Rightarrow> json list" where
  "posted_bodies [] = []"
| "posted_bodies (HttpPost h # es) = body h # posted_bodies es"
| "posted_bodies (FetchUrl u # es) = posted_bodies es"
| "posted_bodies (DecodeBase64 b # es) = posted_bodies es"

text \<open>The events of the image processing: fetching an entry's URL, decoding its base64.\<close>

fun image_events :: "event list \<Rightarrow> event list" where
  "image_events [] = []"
| "image_events (HttpPost h # es) = image_events es"
| "image_events (FetchUrl u # es) = FetchUrl u # image_events es"
| "image_events (DecodeBase64 b # es) = DecodeBase64 b # image_events es"

section \<open>Example inputs\<close>

definition example_settings :: parsed_settings where
  "example_settings = \<lparr>baseURL = ''https://api.example'', apiKey = ''key''\<rparr>"

definition example_request :: generation_request where
  "example_request =
     \<lparr>modelId = ''doubao-seedream-4-5-251128'',
      prompt = ''a cat'',
      aspectRatio = Some ''16:9'',
      inputImages = None,
      n = Some 20\<rparr>"

text \<open>
  An environment whose vendor answers every request with \<open>r\<close>, whose image host
  serves one URL and fails on every other, and whose base64 helper prefixes the
  payload.
\<close>

definition example_fetchUrl :: "json \<Rightarrow> thrown + string" where
  "example_fetchUrl u =
     (if u = JStr ''https://cdn.example/ok.png''
      then Inr ''data:image/png;base64,T0s=''
      else Inl (Thrown (Foreign ''fetch failed'') None))"

fun example_base64 :: "json \<Rightarrow> thrown + string" where
  "example_base64 (JStr s) = Inr (''data:image/png;base64,'' @ s)"
| "example_base64 v = Inl (Thrown (Foreign ''not a string'') None)"

definition env_responding :: "response \<Rightarrow> unit env" where
  "env_responding r =
     \<lparr>doParseSettings = (\<lambda>u. Inr example_settings),
      fetch = (\<lambda>h. Inr r),
      fetchUrlToDataURI = example_fetchUrl,
      base64ToDataURI = example_base64\<rparr>"

definition json_response :: "int \<Rightarrow> json \<Rightarrow> response" where
  "json_response st j = \<lparr>status = st, statusText = [], body_text = [], body_json = Some j\<rparr>"

text \<open>A response whose body is not JSON.\<close>

definition text_response :: "int \<Rightarrow> string \<Rightarrow> response" where
  "text_response st t =
     \<lparr>status = st, statusText = ''unexpected'', body_text = t, body_json = None\<rparr>"

section \<open>Entries no format recognizes\<close>

text \<open>
  An entry without a truthy \<^verbatim>\<open>b64_json\<close>, \<^verbatim>\<open>url\<close>, \<^verbatim>\<open>image_url\<close> or
  \<^verbatim>\<open>base64\<close>. For Qwen the entry has, besides, no \<^verbatim>\<open>message.content\<close>, or one
  whose items carry neither \<^verbatim>\<open>image\<close> nor \<^verbatim>\<open>image_url\<close>.
\<close>

definition unrecognized :: "json \<Rightarrow> bool" where
  "unrecognized entry =
     (entry \<noteq> JNull
      \<and> truthy_member entry ''b64_json'' = None
      \<and> truthy_member entry ''url'' = None
      \<and> truthy_member entry ''image_url'' = None
      \<and> truthy_member entry ''base64'' = None)"

definition plain_item :: "json \<Rightarrow> bool" where
  "plain_item item =
     (item \<noteq> JNull
      \<and> truthy_member item ''image'' = None
      \<and> truthy_member item ''image_url'' = None)"

definition no_choice_image :: "json \<Rightarrow> bool" where
  "no_choice_image entry =
     (case truthy_member entry ''message'' of
        None \<Rightarrow> True
      | Some msg \<Rightarrow>
          (case truthy_member msg ''content'' of
             None \<Rightarrow> True
           | Some content \<Rightarrow>
               (case iterate content of
                  Inl e \<Rightarrow> False
                | Inr items \<Rightarrow> list_all plain_item items)))"

definition qwen_unrecognized :: "json \<Rightarrow> bool" where
  "qwen_unrecognized entry = (unrecognized entry \<and> no_choice_image entry)"

section \<open>The resolution of an entry, as a function\<close>

text \<open>
  The image an entry contributes, if any, without the effects: the payload decoded
  or the URL fetched, and nothing when the helper fails or answers with the empty
  string.
\<close>

definition decoded :: "'s env \<Rightarrow> json \<Rightarrow> string option" where
  "decoded env b =
     (case base64ToDataURI env b of
        Inl e \<Rightarrow> None
      | Inr d \<Rightarrow> if d = [] then None else Some d)"

definition fetched :: "'s env \<Rightarrow> json \<Rightarrow> string option" where
  "fetched env u =
     (case fetchUrlToDataURI env u of
        Inl e \<Rightarrow> None
      | Inr d \<Rightarrow> if d = [] then None else Some d)"

definition direct_image :: "'s env \<Rightarrow> json \<Rightarrow> string option" where
  "direct_image env entry =
     (case truthy_member entry ''b64_json'' of
        Some b \<Rightarrow> decoded env b
      | None \<Rightarrow>
     (case truthy_member entry ''url'' of
        Some u \<Rightarrow> fetched env u
      | None \<Rightarrow>
     (case truthy_member entry ''image_url'' of
        Some u \<Rightarrow> fetched env u
      | None \<Rightarrow>
     (case truthy_member entry ''base64'' of
        Some b \<Rightarrow> decoded env b
      | None \<Rightarrow> None))))"

text \<open>The items of \<^verbatim>\<open>entry.message.content\<close>, none when there is no such list.\<close>

definition content_items :: "json \<Rightarrow> json list" where
  "content_items entry =
     (case truthy_member entry ''message'' of
        None \<Rightarrow> []
      | Some msg \<Rightarrow>
          (case truthy_member msg ''content'' of
             None \<Rightarrow> []
           | Some content \<Rightarrow>
               (case iterate content of Inl e \<Rightarrow> [] | Inr items \<Rightarrow> items)))"

fun item_image :: "'s env \<Rightarrow> json \<Rightarrow> string option" where
  "item_image env (JStr s) =
     (if take 4 s = ''http'' then fetched env (JStr s) else decoded env (JStr s))"
| "item_image env v = None"

text \<open>
  The first item with an \<^verbatim>\<open>image\<close> or an \<^verbatim>\<open>image_url\<close> decides: \<open>Some\<close> of what
  it contributes; \<open>None\<close> when no item has either.
\<close>

fun choice_image :: "'s env \<Rightarrow> json list \<Rightarrow> string option option" where
  "choice_image env [] = None"
| "choice_image env (item # items) =
     (case truthy_member item ''image'' of
        Some v \<Rightarrow> Some (item_image env v)
      | None \<Rightarrow>
     (case truthy_member item ''image_url'' of
        Some u \<Rightarrow> Some (fetched env u)
      | None \<Rightarrow> choice_image env items))"

definition qwen_image :: "'s env \<Rightarrow> json \<Rightarrow> string option" where
  "qwen_image env entry =
     (case choice_image env (content_items entry) of
        Some img \<Rightarrow> img
      | None \<Rightarrow> direct_image env entry)"

text \<open>The base64 helper does not throw on the member \<open>k\<close> of the entry.\<close>

definition accepts :: "'s env \<Rightarrow> json \<Rightarrow> string \<Rightarrow> bool" where
  "accepts env entry k =
     (case truthy_member entry k of
        None \<Rightarrow> True
      | Some b \<Rightarrow> (case base64ToDataURI env b of Inl e \<Rightarrow> False | Inr d \<Rightarrow> True))"

definition wellformed :: "'s env \<Rightarrow> json \<Rightarrow> bool" where
  "wellformed env entry =
     (entry \<noteq> JNull \<and> accepts env entry ''b64_json'' \<and> accepts env entry ''base64'')"

text \<open>
  An item of \<^verbatim>\<open>message.content\<close> the loop can read: not \<^verbatim>\<open>null\<close>, its
  \<^verbatim>\<open>image\<close>, if any, a string, and one the base64 helper takes unless it is a URL.
\<close>

fun image_ok :: "'s env \<Rightarrow> json \<Rightarrow> bool" where
  "image_ok env (JStr s) =
     (if take 4 s = ''http'' then True
      else (case base64ToDataURI env (JStr s) of Inl e \<Rightarrow> False | Inr d \<Rightarrow> True))"
| "image_ok env v = False"

definition item_ok :: "'s env \<Rightarrow> json \<Rightarrow> bool" where
  "item_ok env item =
     (item \<noteq> JNull
      \<and> (case truthy_member item ''image'' of None \<Rightarrow> True | Some v \<Rightarrow> image_ok env v))"

definition content_ok :: "'s env \<Rightarrow> json \<Rightarrow> bool" where
  "content_ok env entry =
     (case truthy_member entry ''message'' of
        None \<Rightarrow> True
      | Some msg \<Rightarrow>
          (case truthy_member msg ''content'' of
             None \<Rightarrow> True
           | Some content \<Rightarrow>
               (case iterate content of
                  Inl e \<Rightarrow> False
                | Inr items \<Rightarrow> list_all (item_ok env) items)))"

definition qwen_wellformed :: "'s env \<Rightarrow> json \<Rightarrow> bool" where
  "qwen_wellformed env entry = (wellformed env entry \<and> content_ok env entry)"

text \<open>What \<^verbatim>\<open>filter(Boolean)\<close> keeps of one value.\<close>

fun kept :: "resolved \<Rightarrow> string option" where
  "kept (DataURI s) = (if s = [] then None else Some s)"
| "kept Null = None"
| "kept Undefined = None"

text \<open>
  A vendor answer with two entries, the first with a URL the image host serves, the
  second with one it does not.
\<close>

definition two_urls :: json where
  "two_urls =
     JObj [(''data'',
            JArr [JObj [(''url'', JStr ''https://cdn.example/ok.png'')],
                  JObj [(''url'', JStr ''https://cdn.example/gone.png'')]])]"

text \<open>A vendor answer with one entry that has a URL and a \<^verbatim>\<open>base64\<close> payload.\<close>

definition url_and_base64 :: json where
  "url_and_base64 =
     JObj [(''data'',
            JArr [JObj [(''url'', JStr ''https://cdn.example/ok.png''),
                        (''base64'', JStr ''QUJD'')]])]"

text \<open>
  The entry's base64 payload is the field the callback takes, and the helper turns it
  into the non-empty data URI \<open>d\<close>: a truthy \<^verbatim>\<open>b64_json\<close>, or a truthy \<^verbatim>\<open>base64\<close>
  with no truthy \<^verbatim>\<open>b64_json\<close>, \<^verbatim>\<open>url\<close> or \<^verbatim>\<open>image_url\<close> before it.
\<close>

definition carries_base64 :: "'s env \<Rightarrow> json \<Rightarrow> string \<Rightarrow> bool" where
  "carries_base64 env entry d =
     (d \<noteq> []
      \<and> (case truthy_member entry ''b64_json'' of
           Some b \<Rightarrow> base64ToDataURI env b = Inr d
         | None \<Rightarrow>
             truthy_member entry ''url'' = None
             \<and> truthy_member entry ''image_url'' = None
             \<and> (case truthy_member entry ''base64'' of
                  Some b \<Rightarrow> base64ToDataURI env b = Inr d
                | None \<Rightarrow> False)))"

text \<open>A vendor answer with one entry that has a URL nobody serves and a \<^verbatim>\<open>base64\<close> payload.\<close>

definition gone_url_and_base64 :: json where
  "gone_url_and_base64 =
     JObj [(''data'',
            JArr [JObj [(''url'', JStr ''https://cdn.example/gone.png''),
                        (''base64'', JStr ''QUJD'')]])]"

text \<open>Vendor answers with one entry that has a base64 payload and no URL.\<close>

definition one_b64_json :: json where
  "one_b64_json = JObj [(''data'', JArr [JObj [(''b64_json'', JStr ''QUJD'')]])]"

definition one_base64 :: json where
  "one_base64 = JObj [(''images'', JArr [JObj [(''base64'', JStr ''QUJD'')]])]"

text \<open>An environment whose HTTP client throws \<open>e\<close> on every request.\<close>

definition env_throwing :: "thrown \<Rightarrow> unit env" where
  "env_throwing e =
     \<lparr>doParseSettings = (\<lambda>u. Inr example_settings),
      fetch = (\<lambda>h. Inl e),
      fetchUrlToDataURI = example_fetchUrl,
      base64ToDataURI = example_base64\<rparr>"

definition unauthorized :: thrown where
  "unauthorized = Thrown (Foreign ''unauthorized'') (Some (JNum 401))"

definition offline :: thrown where
  "offline = Thrown (Foreign ''fetch failed'') None"

text \<open>
  A request with one input image for Qwen's image-to-image model, a request for a
  model no catalog has, and a request with an input image for Qwen's text-to-image
  model.
\<close>

definition i2i_request :: generation_request where
  "i2i_request =
     \<lparr>modelId = ''qwen-image'',
      prompt = ''a cat'',
      aspectRatio = None,
      inputImages = Some [''data:image/png;base64,QUJD''],
      n = None\<rparr>"

definition unknown_model_request :: generation_request where
  "unknown_model_request =
     \<lparr>modelId = ''no-such-model'',
      prompt = ''a cat'',
      aspectRatio = None,
      inputImages = None,
      n = None\<rparr>"

definition t2i_with_image_request :: generation_request where
  "t2i_with_image_request =
     \<lparr>modelId = ''qwen-image-max'',
      prompt = ''a cat'',
      aspectRatio = None,
      inputImages = Some [''data:image/png;base64,QUJD''],
      n = None\<rparr>"

text \<open>
  A database of two accounts, one with a password and one of a social login, with a
  toy hash; and the same with a \<^verbatim>\<open>select\<close> that throws.
\<close>

definition example_accounts :: "account list" where
  "example_accounts =
     [\<lparr>account_id = ''a1'', account_userId = ''u1'', account_password = Some ''hash:old-secret''\<rparr>,
      \<lparr>account_id = ''a2'', account_userId = ''u2'', account_password = None\<rparr>]"

definition set_password :: "account list \<Rightarrow> string \<Rightarrow> string \<Rightarrow> account list" where
  "set_password db i h =
     map (\<lambda>acc. if account_id acc = i then acc\<lparr>account_password := Some h\<rparr> else acc) db"

definition example_auth :: "(account list) auth_env" where
  "example_auth =
     \<lparr>getContext = Inr example_accounts,
      select_account = (\<lambda>db u. Inr (take 1 (filter (\<lambda>acc. account_userId acc = u) db))),
      verifyPassword = (\<lambda>h p. Inr (h = ''hash:'' @ p)),
      hashPassword = (\<lambda>p. Inr (''hash:'' @ p)),
      update_account = (\<lambda>db i h. Inr (set_password db i h)),
      ok_json = JObj [(''code'', JStr ''ok'')],
      validation_error = (\<lambda>b. JObj [(''success'', JBool False)])\<rparr>"

definition locked_auth :: "(account list) auth_env" where
  "locked_auth =
     example_auth\<lparr>select_account := (\<lambda>db u. Inl (Exn (Some ''database is locked'')))\<rparr>"

definition example_change :: update_password_request where
  "example_change = \<lparr>currentPassword = ''old-secret'', newPassword = ''new-secret''\<rparr>"

text \<open>The request body that parses to it, and one whose new password is too short.\<close>

definition body_of :: "update_password_request \<Rightarrow> json" where
  "body_of req =
     JObj [(''currentPassword'', JStr (currentPassword req)),
           (''newPassword'', JStr (newPassword req))]"

definition short_body :: json where
  "short_body = JObj [(''currentPassword'', JStr ''guess''), (''newPassword'', JStr ''abc'')]"

section \<open>Unfolding sets\<close>

lemmas example_defs =
  env_responding_def json_response_def example_settings_def example_request_def
  example_fetchUrl_def

lemmas doubao_defs =
  doubao_generate_def doubao_try_def doubao_catch_def doubao_onOk_def doubao_notOk_def
  doubao_imageData_def doubao_resolve_def doubao_httpRequest_def doubao_requestBody_def
  doubao_size_def doubao_aspectRatioSizes_def doubao_models_def doubao_errorMessage_def
  findModel_def chooseAblility_def has_images_def batching_def ok_def gather_def
  resolve_direct_def truthy_member_def decode_def fetch_or_null_def typeError_def
  syntaxError_def

lemmas qwen_defs =
  qwen_generate_def qwen_try_def qwen_onOk_def qwen_notOk_def qwen_apiError_def
  qwen_imageData_def qwen_imageData_rest_def qwen_resolve_def qwen_httpRequest_def
  qwen_requestBody_def qwen_size_def qwen_aspectRatioSizes_def ok_def gather_def
  resolve_direct_def truthy_member_def decode_def fetch_or_null_def typeError_def
  syntaxError_def

section \<open>The HTTP requests of a call\<close>

text \<open>
  Image processing sends no request to the vendor, so a call posts at most once, and
  what it posts is the body built from the request.
\<close>

lemma posted_bodies_append: "posted_bodies (xs @ ys) = posted_bodies xs @ posted_bodies ys"
  by (induction xs rule: posted_bodies.induct) simp_all

lemma decode_posted: "posted_bodies (fst (decode env b)) = []"
  by (simp add: decode_def)

lemma fetch_or_null_posted: "posted_bodies (fst (fetch_or_null env u)) = []"
  by (simp add: fetch_or_null_def)

lemma resolve_direct_posted: "posted_bodies (fst (resolve_direct env entry)) = []"
  by (simp add: resolve_direct_def decode_posted fetch_or_null_posted split: option.splits)

lemma doubao_resolve_posted: "posted_bodies (fst (doubao_resolve env entry)) = []"
  by (simp add: doubao_resolve_def resolve_direct_posted)

lemma qwen_item_image_posted: "posted_bodies (fst (qwen_item_image env v)) = []"
  by (cases v) (simp_all add: decode_posted fetch_or_null_posted)

lemma qwen_content_loop_posted:
  "qwen_content_loop env items = Some res \<Longrightarrow> posted_bodies (fst res) = []"
  by (induction items)
     (auto simp: qwen_item_image_posted fetch_or_null_posted split: if_splits option.splits)

lemma qwen_resolve_posted: "posted_bodies (fst (qwen_resolve env entry)) = []"
  by (auto simp: qwen_resolve_def resolve_direct_posted qwen_content_loop_posted
           split: option.splits sum.splits)

lemma gather_posted:
  "(\<And>x. x \<in> set rs \<Longrightarrow> posted_bodies (fst x) = []) \<Longrightarrow> posted_bodies (fst (gather rs)) = []"
  by (induction rs) (simp_all add: gather_def posted_bodies_append)

lemma doubao_onOk_posted: "posted_bodies (fst (doubao_onOk env r)) = []"
proof -
  have "posted_bodies (fst (gather (map (doubao_resolve env) xs))) = []" for xs
    by (rule gather_posted) (auto simp: doubao_resolve_posted)
  then show ?thesis
    by (auto simp: doubao_onOk_def split: option.splits sum.splits)
qed

lemma qwen_onOk_posted: "posted_bodies (fst (qwen_onOk env r)) = []"
proof -
  have "posted_bodies (fst (gather (map (qwen_resolve env) xs))) = []" for xs
    by (rule gather_posted) (auto simp: qwen_resolve_posted)
  then show ?thesis
    by (auto simp: qwen_onOk_def split: option.splits sum.splits)
qed

lemma doubao_try_posted:
  "b \<in> set (posted_bodies (fst (doubao_try env request s sz))) \<Longrightarrow> b = doubao_requestBody request sz"
  by (auto simp: doubao_try_def doubao_httpRequest_def doubao_onOk_posted split: sum.splits if_splits)

lemma doubao_generate_posted:
  "b \<in> set (posted_bodies (fst (doubao_generate env request settings)))
   \<Longrightarrow> b = doubao_requestBody request (doubao_size request)"
  by (auto simp: doubao_generate_def split: sum.splits dest: doubao_try_posted)

lemma qwen_generate_posted:
  "b \<in> set (posted_bodies (fst (qwen_generate env request settings)))
   \<Longrightarrow> b = qwen_requestBody request"
  by (auto simp: qwen_generate_def qwen_try_def qwen_httpRequest_def qwen_onOk_posted split: sum.splits if_splits)

section \<open>Request construction\<close>

lemma doubao_table_keys: "map_of doubao_aspectRatioSizes a = Some s \<Longrightarrow> a \<noteq> []"
  by (auto simp: doubao_aspectRatioSizes_def split: if_splits)

lemma qwen_table_keys: "map_of qwen_aspectRatioSizes a = Some s \<Longrightarrow> a \<noteq> []"
  by (auto simp: qwen_aspectRatioSizes_def split: if_splits)

lemma doubao_size_member:
  "member (doubao_requestBody request sz) ''size'' = sz"
  by (cases sz) (simp_all add: doubao_requestBody_def split: option.splits)

lemma qwen_size_member:
  "opt_chain (member (qwen_requestBody request) ''parameters'') ''size'' = qwen_size request"
  by (cases "qwen_size request") (simp_all add: qwen_requestBody_def)

text \<open>
  C7. Whatever a call of an adapter posts, its size is the string of that adapter's
  table for the request's aspect ratio (Doubao: member \<^verbatim>\<open>size\<close>; Qwen: member
  \<^verbatim>\<open>parameters.size\<close>), for instance \<^verbatim>\<open>2560x1440\<close> and \<^verbatim>\<open>1792*1024\<close> for
  \<^verbatim>\<open>16:9\<close>; without an aspect ratio Doubao posts \<^verbatim>\<open>size: null\<close> and Qwen
  \<^verbatim>\<open>1024*1024\<close>. Every aspect ratio a model of either catalog declares as supported
  is a key of the adapter's table.
\<close>

theorem aspect_ratio_size:
  "(\<forall>b \<in> set (posted_bodies (fst (doubao_generate env request settings))).
      (\<forall>a s. aspectRatio request = Some a \<and> map_of doubao_aspectRatioSizes a = Some s
          \<longrightarrow> member b ''size'' = Some (JStr s))
    \<and> (aspectRatio request = None \<longrightarrow> member b ''size'' = Some JNull))
 \<and> (\<forall>b \<in> set (posted_bodies (fst (qwen_generate env request settings))).
      (\<forall>a s. aspectRatio request = Some a \<and> map_of qwen_aspectRatioSizes a = Some s
          \<longrightarrow> opt_chain (member b ''parameters'') ''size'' = Some (JStr s))
    \<and> (aspectRatio request = None
          \<longrightarrow> opt_chain (member b ''parameters'') ''size'' = Some (JStr ''1024*1024'')))
 \<and> map_of doubao_aspectRatioSizes ''16:9'' = Some ''2560x1440''
 \<and> map_of qwen_aspectRatioSizes ''16:9'' = Some ''1792*1024''
 \<and> (\<forall>m \<in> set doubao_models. \<forall>a \<in> set (supportedAspectRatios m). a \<in> dom (map_of doubao_aspectRatioSizes))
 \<and> (\<forall>m \<in> set qwen_models. \<forall>a \<in> set (supportedAspectRatios m). a \<in> dom (map_of qwen_aspectRatioSizes))"
proof (intro conjI ballI)
  fix b assume "b \<in> set (posted_bodies (fst (doubao_generate env request settings)))"
  then have b: "b = doubao_requestBody request (doubao_size request)"
    by (rule doubao_generate_posted)
  show "\<forall>a s. aspectRatio request = Some a \<and> map_of doubao_aspectRatioSizes a = Some s
          \<longrightarrow> member b ''size'' = Some (JStr s)"
    using doubao_table_keys by (auto simp: b doubao_size_member doubao_size_def)
  show "aspectRatio request = None \<longrightarrow> member b ''size'' = Some JNull"
    by (simp add: b doubao_size_member doubao_size_def)
next
  fix b assume "b \<in> set (posted_bodies (fst (qwen_generate env request settings)))"
  then have b: "b = qwen_requestBody request"
    by (rule qwen_generate_posted)
  show "\<forall>a s. aspectRatio request = Some a \<and> map_of qwen_aspectRatioSizes a = Some s
          \<longrightarrow> opt_chain (member b ''parameters'') ''size'' = Some (JStr s)"
    using qwen_table_keys by (auto simp: b qwen_size_member qwen_size_def)
  show "aspectRatio request = None
          \<longrightarrow> opt_chain (member b ''parameters'') ''size'' = Some (JStr ''1024*1024'')"
    by (simp add: b qwen_size_member qwen_size_def)
next
  show "map_of doubao_aspectRatioSizes ''16:9'' = Some ''2560x1440''"
    by (simp add: doubao_aspectRatioSizes_def)
  show "map_of qwen_aspectRatioSizes ''16:9'' = Some ''1792*1024''"
    by (simp add: qwen_aspectRatioSizes_def)
next
  fix m a assume "m \<in> set doubao_models" "a \<in> set (supportedAspectRatios m)"
  then show "a \<in> dom (map_of doubao_aspectRatioSizes)"
    by (auto simp: doubao_models_def doubao_aspectRatioSizes_def)
next
  fix m a assume "m \<in> set qwen_models" "a \<in> set (supportedAspectRatios m)"
  then show "a \<in> dom (map_of qwen_aspectRatioSizes)"
    by (auto simp: qwen_models_def qwen_aspectRatioSizes_def)
qed

theorem aspect_ratio_size_witness:
  "doubao_requestBody example_request (doubao_size example_request)
     \<in> set (posted_bodies (fst (doubao_generate (env_responding (json_response 200 (JObj []))) example_request ())))
   \<and> aspectRatio example_request = Some ''16:9''
   \<and> member (doubao_requestBody example_request (doubao_size example_request)) ''size''
       = Some (JStr ''2560x1440'')
   \<and> qwen_requestBody example_request
     \<in> set (posted_bodies (fst (qwen_generate (env_responding (json_response 200 (JObj []))) example_request ())))
   \<and> opt_chain (member (qwen_requestBody example_request) ''parameters'') ''size''
       = Some (JStr ''1792*1024'')
   \<and> doubao_requestBody (example_request\<lparr>aspectRatio := None\<rparr>) (doubao_size (example_request\<lparr>aspectRatio := None\<rparr>))
     \<in> set (posted_bodies (fst (doubao_generate (env_responding (json_response 200 (JObj []))) (example_request\<lparr>aspectRatio := None\<rparr>) ())))
   \<and> member (doubao_requestBody (example_request\<lparr>aspectRatio := None\<rparr>) (doubao_size (example_request\<lparr>aspectRatio := None\<rparr>))) ''size''
       = Some JNull"
proof -
  let ?env = "env_responding (json_response 200 (JObj []))"
  let ?none = "example_request\<lparr>aspectRatio := None\<rparr>"
  have d: "doubao_requestBody example_request (doubao_size example_request)
     \<in> set (posted_bodies (fst (doubao_generate ?env example_request ())))"
    by (simp add: example_defs doubao_defs)
  have q: "qwen_requestBody example_request
     \<in> set (posted_bodies (fst (qwen_generate ?env example_request ())))"
    by (simp add: example_defs qwen_defs)
  have dn: "doubao_requestBody ?none (doubao_size ?none)
     \<in> set (posted_bodies (fst (doubao_generate ?env ?none ())))"
    by (simp add: example_defs doubao_defs)
  have a: "aspectRatio example_request = Some ''16:9''" "aspectRatio ?none = None"
    by (simp_all add: example_request_def)
  from aspect_ratio_size [of ?env example_request "()"] d q a
  have 1: "member (doubao_requestBody example_request (doubao_size example_request)) ''size''
       = Some (JStr ''2560x1440'')"
    and 2: "opt_chain (member (qwen_requestBody example_request) ''parameters'') ''size''
       = Some (JStr ''1792*1024'')"
    by blast+
  from aspect_ratio_size [of ?env ?none "()"] dn a
  have 3: "member (doubao_requestBody ?none (doubao_size ?none)) ''size'' = Some JNull"
    by blast
  from d q dn a 1 2 3 show ?thesis by blast
qed

text \<open>
  C8. Whatever a call of the Doubao adapter posts: with \<open>n\<close> absent, 0 or 1,
  \<^verbatim>\<open>sequential_image_generation\<close> is \<^verbatim>\<open>"disabled"\<close> and there is no member
  \<^verbatim>\<open>sequential_image_generation_options\<close>; with \<open>n > 1\<close> it is \<^verbatim>\<open>"auto"\<close> and
  \<^verbatim>\<open>max_images\<close> is \<open>min n 15\<close>.
\<close>

theorem doubao_batching:
  "\<forall>b \<in> set (posted_bodies (fst (doubao_generate env request settings))).
     (n request = None \<or> n request = Some 0 \<or> n request = Some 1 \<longrightarrow>
        member b ''sequential_image_generation'' = Some (JStr ''disabled'')
      \<and> member b ''sequential_image_generation_options'' = None)
   \<and> (\<forall>k. n request = Some k \<and> 1 < k \<longrightarrow>
        member b ''sequential_image_generation'' = Some (JStr ''auto'')
      \<and> member b ''sequential_image_generation_options''
          = Some (JObj [(''max_images'', JNum (min k 15))]))"
proof
  fix b assume "b \<in> set (posted_bodies (fst (doubao_generate env request settings)))"
  then have b: "b = doubao_requestBody request (doubao_size request)"
    by (rule doubao_generate_posted)
  show "(n request = None \<or> n request = Some 0 \<or> n request = Some 1 \<longrightarrow>
        member b ''sequential_image_generation'' = Some (JStr ''disabled'')
      \<and> member b ''sequential_image_generation_options'' = None)
   \<and> (\<forall>k. n request = Some k \<and> 1 < k \<longrightarrow>
        member b ''sequential_image_generation'' = Some (JStr ''auto'')
      \<and> member b ''sequential_image_generation_options''
          = Some (JObj [(''max_images'', JNum (min k 15))]))"
    unfolding b
    by (auto simp: doubao_requestBody_def batching_def split: option.splits)
qed

theorem doubao_batching_witness:
  "doubao_requestBody example_request (doubao_size example_request)
     \<in> set (posted_bodies (fst (doubao_generate (env_responding (json_response 200 (JObj []))) example_request ())))
   \<and> n example_request = Some 20 \<and> (1::int) < 20
   \<and> member (doubao_requestBody example_request (doubao_size example_request)) ''sequential_image_generation''
       = Some (JStr ''auto'')
   \<and> member (doubao_requestBody example_request (doubao_size example_request)) ''sequential_image_generation_options''
       = Some (JObj [(''max_images'', JNum 15)])
   \<and> doubao_requestBody (example_request\<lparr>n := Some 1\<rparr>) (doubao_size (example_request\<lparr>n := Some 1\<rparr>))
     \<in> set (posted_bodies (fst (doubao_generate (env_responding (json_response 200 (JObj []))) (example_request\<lparr>n := Some 1\<rparr>) ())))
   \<and> n (example_request\<lparr>n := Some 1\<rparr>) = Some 1
   \<and> member (doubao_requestBody (example_request\<lparr>n := Some 1\<rparr>) (doubao_size (example_request\<lparr>n := Some 1\<rparr>))) ''sequential_image_generation''
       = Some (JStr ''disabled'')
   \<and> member (doubao_requestBody (example_request\<lparr>n := Some 1\<rparr>) (doubao_size (example_request\<lparr>n := Some 1\<rparr>))) ''sequential_image_generation_options''
       = None"
proof -
  let ?env = "env_responding (json_response 200 (JObj []))"
  let ?one = "example_request\<lparr>n := Some 1\<rparr>"
  have d: "doubao_requestBody example_request (doubao_size example_request)
     \<in> set (posted_bodies (fst (doubao_generate ?env example_request ())))"
    by (simp add: example_defs doubao_defs)
  have d1: "doubao_requestBody ?one (doubao_size ?one)
     \<in> set (posted_bodies (fst (doubao_generate ?env ?one ())))"
    by (simp add: example_defs doubao_defs)
  have k: "n example_request = Some 20" "(1::int) < 20" "n ?one = Some 1"
    by (simp_all add: example_request_def)
  from doubao_batching [of ?env example_request "()"] d k
  have 1: "member (doubao_requestBody example_request (doubao_size example_request)) ''sequential_image_generation''
       = Some (JStr ''auto'')
     \<and> member (doubao_requestBody example_request (doubao_size example_request)) ''sequential_image_generation_options''
       = Some (JObj [(''max_images'', JNum (min 20 15))])"
    by blast
  from doubao_batching [of ?env ?one "()"] d1 k
  have 2: "member (doubao_requestBody ?one (doubao_size ?one)) ''sequential_image_generation''
       = Some (JStr ''disabled'')
     \<and> member (doubao_requestBody ?one (doubao_size ?one)) ''sequential_image_generation_options''
       = None"
    by blast
  from d d1 k 1 2 show ?thesis by simp
qed

section \<open>Error classification\<close>

text \<open>
  What a call returns once the vendor has answered: the settings parsed, the model
  found and its ability chosen (Doubao), and the request answered by \<open>r\<close>.
\<close>

lemma doubao_reaches_response:
  assumes "doParseSettings env settings = Inr s"
    and "findModel doubao_models (modelId request) = Inr m"
    and "chooseAblility request (model_ability m) = Inr a"
    and "fetch env (doubao_httpRequest s request (doubao_size request)) = Inr r"
  shows "doubao_generate env request settings =
     (if ok r
      then (HttpPost (doubao_httpRequest s request (doubao_size request)) # fst (doubao_onOk env r),
            case snd (doubao_onOk env r) of Inl e \<Rightarrow> doubao_catch e | Inr res \<Rightarrow> Inr res)
      else ([HttpPost (doubao_httpRequest s request (doubao_size request))],
            case doubao_notOk r of Inl e \<Rightarrow> doubao_catch e | Inr res \<Rightarrow> Inr res))"
  using assms by (simp add: doubao_generate_def doubao_try_def split: sum.splits)

lemma qwen_reaches_response:
  assumes "doParseSettings env settings = Inr s"
    and "fetch env (qwen_httpRequest s request) = Inr r"
  shows "qwen_generate env request settings =
     (if ok r
      then (HttpPost (qwen_httpRequest s request) # fst (qwen_onOk env r),
            case snd (qwen_onOk env r) of Inl e \<Rightarrow> qwen_catch e | Inr res \<Rightarrow> Inr res)
      else ([HttpPost (qwen_httpRequest s request)], qwen_catch (qwen_notOk r)))"
  using assms by (simp add: qwen_generate_def qwen_try_def split: sum.splits)

text \<open>
  C1, amended. A call of either adapter whose HTTP response is not 2xx does no image
  processing (no URL is fetched and no base64 is decoded) and ends as follows.
  Status 401 or 404 returns \<open>CONFIG_ERROR\<close> with no images, and 429 returns
  \<open>TOO_MANY_REQUESTS\<close> with no images. Status 400 returns \<open>PROMPT_FLAGGED\<close> with no
  images on Doubao whatever the body says, and on Qwen when the body is JSON whose
  \<^verbatim>\<open>code\<close> is \<^verbatim>\<open>InvalidParameter\<close>; every other 400 on Qwen throws: the adapter's
  \<^verbatim>\<open>new Error\<close> for a JSON body without that code, a \<open>SyntaxError\<close> for a body that
  is not JSON, a \<open>TypeError\<close> for the body \<^verbatim>\<open>null\<close>. Any status other than 400, 401,
  404 and 429 throws the adapter's \<^verbatim>\<open>new Error\<close>. The \<^verbatim>\<open>catch\<close> blocks let all of
  these errors through.
\<close>

theorem error_classification:
  "(doParseSettings env settings = Inr s
    \<and> findModel doubao_models (modelId request) = Inr m
    \<and> chooseAblility request (model_ability m) = Inr a
    \<and> fetch env (doubao_httpRequest s request (doubao_size request)) = Inr r
    \<and> \<not> ok r
    \<longrightarrow> image_events (fst (doubao_generate env request settings)) = []
      \<and> (status r = 401 \<or> status r = 404 \<longrightarrow>
            snd (doubao_generate env request settings)
              = Inr \<lparr>images = [], errorReason = Some CONFIG_ERROR\<rparr>)
      \<and> (status r = 429 \<longrightarrow>
            snd (doubao_generate env request settings)
              = Inr \<lparr>images = [], errorReason = Some TOO_MANY_REQUESTS\<rparr>)
      \<and> (status r = 400 \<longrightarrow>
            snd (doubao_generate env request settings)
              = Inr \<lparr>images = [], errorReason = Some PROMPT_FLAGGED\<rparr>)
      \<and> (status r \<notin> {401, 404, 429, 400} \<longrightarrow>
            snd (doubao_generate env request settings)
              = Inl (Thrown (JsError [Lit ''Doubao API error: '', Interp (doubao_errorMessage r)]) None)))
 \<and> (doParseSettings env settings = Inr s
    \<and> fetch env (qwen_httpRequest s request) = Inr r
    \<and> \<not> ok r
    \<longrightarrow> image_events (fst (qwen_generate env request settings)) = []
      \<and> (status r = 401 \<or> status r = 404 \<longrightarrow>
            snd (qwen_generate env request settings)
              = Inr \<lparr>images = [], errorReason = Some CONFIG_ERROR\<rparr>)
      \<and> (status r = 429 \<longrightarrow>
            snd (qwen_generate env request settings)
              = Inr \<lparr>images = [], errorReason = Some TOO_MANY_REQUESTS\<rparr>)
      \<and> (\<forall>j. status r = 400 \<and> body_json r = Some j
               \<and> member j ''code'' = Some (JStr ''InvalidParameter'') \<longrightarrow>
            snd (qwen_generate env request settings)
              = Inr \<lparr>images = [], errorReason = Some PROMPT_FLAGGED\<rparr>)
      \<and> (\<forall>j. status r = 400 \<and> body_json r = Some j \<and> j \<noteq> JNull
               \<and> member j ''code'' \<noteq> Some (JStr ''InvalidParameter'') \<longrightarrow>
            snd (qwen_generate env request settings) = Inl (qwen_apiError r))
      \<and> (status r = 400 \<and> body_json r = None \<longrightarrow>
            snd (qwen_generate env request settings) = Inl (Thrown SyntaxError None))
      \<and> (status r = 400 \<and> body_json r = Some JNull \<longrightarrow>
            snd (qwen_generate env request settings) = Inl (Thrown TypeError None))
      \<and> (status r \<notin> {401, 404, 429, 400} \<longrightarrow>
            snd (qwen_generate env request settings) = Inl (qwen_apiError r)))"
proof (intro conjI impI)
  assume h: "doParseSettings env settings = Inr s
    \<and> findModel doubao_models (modelId request) = Inr m
    \<and> chooseAblility request (model_ability m) = Inr a
    \<and> fetch env (doubao_httpRequest s request (doubao_size request)) = Inr r
    \<and> \<not> ok r"
  then have g: "doubao_generate env request settings =
      ([HttpPost (doubao_httpRequest s request (doubao_size request))],
       case doubao_notOk r of Inl e \<Rightarrow> doubao_catch e | Inr res \<Rightarrow> Inr res)"
    using doubao_reaches_response [of env settings s request m a r] by simp
  show "image_events (fst (doubao_generate env request settings)) = []"
    by (simp add: g)
  { assume "status r = 401 \<or> status r = 404"
    then show "snd (doubao_generate env request settings)
              = Inr \<lparr>images = [], errorReason = Some CONFIG_ERROR\<rparr>"
      by (auto simp: g doubao_notOk_def) }
  { assume "status r = 429"
    then show "snd (doubao_generate env request settings)
              = Inr \<lparr>images = [], errorReason = Some TOO_MANY_REQUESTS\<rparr>"
      by (simp add: g doubao_notOk_def) }
  { assume "status r = 400"
    then show "snd (doubao_generate env request settings)
              = Inr \<lparr>images = [], errorReason = Some PROMPT_FLAGGED\<rparr>"
      by (simp add: g doubao_notOk_def) }
  { assume "status r \<notin> {401, 404, 429, 400}"
    then show "snd (doubao_generate env request settings)
              = Inl (Thrown (JsError [Lit ''Doubao API error: '', Interp (doubao_errorMessage r)]) None)"
      by (simp add: g doubao_notOk_def doubao_catch_def) }
next
  assume h: "doParseSettings env settings = Inr s
    \<and> fetch env (qwen_httpRequest s request) = Inr r
    \<and> \<not> ok r"
  then have g: "qwen_generate env request settings =
      ([HttpPost (qwen_httpRequest s request)], qwen_catch (qwen_notOk r))"
    using qwen_reaches_response [of env settings s request r] by simp
  show "image_events (fst (qwen_generate env request settings)) = []"
    by (simp add: g)
  { assume "status r = 401 \<or> status r = 404"
    then show "snd (qwen_generate env request settings)
              = Inr \<lparr>images = [], errorReason = Some CONFIG_ERROR\<rparr>"
      by (auto simp: g qwen_notOk_def) }
  { assume "status r = 429"
    then show "snd (qwen_generate env request settings)
              = Inr \<lparr>images = [], errorReason = Some TOO_MANY_REQUESTS\<rparr>"
      by (simp add: g qwen_notOk_def) }
  { assume "status r \<notin> {401, 404, 429, 400}"
    then show "snd (qwen_generate env request settings) = Inl (qwen_apiError r)"
      by (simp add: g qwen_notOk_def qwen_apiError_def) }
  { assume "status r = 400 \<and> body_json r = None"
    then show "snd (qwen_generate env request settings) = Inl (Thrown SyntaxError None)"
      by (simp add: g qwen_notOk_def syntaxError_def) }
  { assume "status r = 400 \<and> body_json r = Some JNull"
    then show "snd (qwen_generate env request settings) = Inl (Thrown TypeError None)"
      by (simp add: g qwen_notOk_def typeError_def) }
  show "\<forall>j. status r = 400 \<and> body_json r = Some j
               \<and> member j ''code'' = Some (JStr ''InvalidParameter'') \<longrightarrow>
            snd (qwen_generate env request settings)
              = Inr \<lparr>images = [], errorReason = Some PROMPT_FLAGGED\<rparr>"
    by (auto simp: g qwen_notOk_def)
  show "\<forall>j. status r = 400 \<and> body_json r = Some j \<and> j \<noteq> JNull
               \<and> member j ''code'' \<noteq> Some (JStr ''InvalidParameter'') \<longrightarrow>
            snd (qwen_generate env request settings) = Inl (qwen_apiError r)"
    by (auto simp: g qwen_notOk_def qwen_apiError_def)
qed

theorem error_classification_witness:
  "\<not> ok (json_response 401 JNull) \<and> \<not> ok (json_response 429 JNull)
   \<and> \<not> ok (json_response 400 (JObj [(''code'', JStr ''InvalidParameter'')]))
   \<and> \<not> ok (json_response 400 (JObj [(''code'', JStr ''Throttling'')]))
   \<and> \<not> ok (text_response 400 ''<html>'') \<and> \<not> ok (json_response 400 JNull)
   \<and> \<not> ok (json_response 500 (JObj [(''error'', JObj [(''message'', JStr ''overloaded'')])]))
   \<and> \<not> ok (text_response 502 ''<html>'')
   \<and> snd (doubao_generate (env_responding (json_response 401 JNull)) example_request ())
       = Inr \<lparr>images = [], errorReason = Some CONFIG_ERROR\<rparr>
   \<and> snd (doubao_generate (env_responding (json_response 429 JNull)) example_request ())
       = Inr \<lparr>images = [], errorReason = Some TOO_MANY_REQUESTS\<rparr>
   \<and> snd (doubao_generate (env_responding (json_response 400 (JObj [(''code'', JStr ''InvalidParameter'')]))) example_request ())
       = Inr \<lparr>images = [], errorReason = Some PROMPT_FLAGGED\<rparr>
   \<and> snd (doubao_generate (env_responding (json_response 500 (JObj [(''error'', JObj [(''message'', JStr ''overloaded'')])]))) example_request ())
       = Inl (Thrown (JsError [Lit ''Doubao API error: '', Interp (JStr ''overloaded'')]) None)
   \<and> snd (doubao_generate (env_responding (text_response 502 ''<html>'')) example_request ())
       = Inl (Thrown (JsError [Lit ''Doubao API error: '', Interp (JStr ''unexpected'')]) None)
   \<and> image_events (fst (doubao_generate (env_responding (text_response 502 ''<html>'')) example_request ())) = []
   \<and> snd (qwen_generate (env_responding (json_response 401 JNull)) example_request ())
       = Inr \<lparr>images = [], errorReason = Some CONFIG_ERROR\<rparr>
   \<and> snd (qwen_generate (env_responding (json_response 429 JNull)) example_request ())
       = Inr \<lparr>images = [], errorReason = Some TOO_MANY_REQUESTS\<rparr>
   \<and> snd (qwen_generate (env_responding (json_response 400 (JObj [(''code'', JStr ''InvalidParameter'')]))) example_request ())
       = Inr \<lparr>images = [], errorReason = Some PROMPT_FLAGGED\<rparr>
   \<and> snd (qwen_generate (env_responding (json_response 400 (JObj [(''code'', JStr ''Throttling'')]))) example_request ())
       = Inl (qwen_apiError (json_response 400 (JObj [(''code'', JStr ''Throttling'')])))
   \<and> snd (qwen_generate (env_responding (text_response 400 ''<html>'')) example_request ())
       = Inl (Thrown SyntaxError None)
   \<and> snd (qwen_generate (env_responding (json_response 400 JNull)) example_request ())
       = Inl (Thrown TypeError None)
   \<and> snd (qwen_generate (env_responding (text_response 502 ''<html>'')) example_request ())
       = Inl (Thrown (JsError [Lit ''Qwen API error: '', Interp (JNum 502), Lit '' '',
                               Interp (JStr ''unexpected''), Lit '' - '', Interp (JStr ''<html>'')])
                     None)
   \<and> image_events (fst (qwen_generate (env_responding (text_response 502 ''<html>'')) example_request ())) = []"
proof -
  let ?flag = "json_response 400 (JObj [(''code'', JStr ''InvalidParameter'')])"
  let ?other = "json_response 400 (JObj [(''code'', JStr ''Throttling'')])"
  let ?html = "text_response 400 ''<html>''"
  let ?null = "json_response 400 JNull"
  let ?busy = "json_response 500 (JObj [(''error'', JObj [(''message'', JStr ''overloaded'')])])"
  let ?bad = "text_response 502 ''<html>''"
  let ?m = "hd doubao_models"
  have pre: "findModel doubao_models (modelId example_request) = Inr ?m"
    "chooseAblility example_request (model_ability ?m) = Inr T2I"
    by (simp_all add: findModel_def doubao_models_def example_request_def
          chooseAblility_def has_images_def)
  have env: "doParseSettings (env_responding r) () = Inr example_settings"
    "fetch (env_responding r) h = Inr r" for r h
    by (simp_all add: env_responding_def)
  have st: "status (json_response 401 JNull) = 401" "status (json_response 429 JNull) = 429"
    "status ?flag = 400" "status ?other = 400" "status ?html = 400" "status ?null = 400"
    "status ?busy = 500" "status ?bad = 502"
    by (simp_all add: json_response_def text_response_def)
  have bd: "body_json ?flag = Some (JObj [(''code'', JStr ''InvalidParameter'')])"
    "member (JObj [(''code'', JStr ''InvalidParameter'')]) ''code'' = Some (JStr ''InvalidParameter'')"
    "body_json ?other = Some (JObj [(''code'', JStr ''Throttling'')])"
    "JObj [(''code'', JStr ''Throttling'')] \<noteq> JNull"
    "member (JObj [(''code'', JStr ''Throttling'')]) ''code'' \<noteq> Some (JStr ''InvalidParameter'')"
    "body_json ?html = None" "body_json ?null = Some JNull"
    by (simp_all add: json_response_def text_response_def)
  have nok: "\<not> ok (json_response 401 JNull)" "\<not> ok (json_response 429 JNull)"
    "\<not> ok ?flag" "\<not> ok ?other" "\<not> ok ?html" "\<not> ok ?null" "\<not> ok ?busy" "\<not> ok ?bad"
    by (simp_all add: ok_def json_response_def text_response_def)
  have msg: "doubao_errorMessage ?busy = JStr ''overloaded''"
    "doubao_errorMessage ?bad = JStr ''unexpected''"
    by (simp_all add: doubao_errorMessage_def json_response_def text_response_def)
  have qmsg: "qwen_apiError ?bad
     = Thrown (JsError [Lit ''Qwen API error: '', Interp (JNum 502), Lit '' '',
                        Interp (JStr ''unexpected''), Lit '' - '', Interp (JStr ''<html>'')])
              None"
    by (simp add: qwen_apiError_def text_response_def)
  note c = error_classification [where settings = "()" and s = example_settings
      and request = example_request and m = ?m and a = T2I]
  from c [of "env_responding (json_response 401 JNull)" "json_response 401 JNull"] pre env st nok
  have 1: "snd (doubao_generate (env_responding (json_response 401 JNull)) example_request ())
       = Inr \<lparr>images = [], errorReason = Some CONFIG_ERROR\<rparr>"
    and 5: "snd (qwen_generate (env_responding (json_response 401 JNull)) example_request ())
       = Inr \<lparr>images = [], errorReason = Some CONFIG_ERROR\<rparr>"
    by simp_all
  from c [of "env_responding (json_response 429 JNull)" "json_response 429 JNull"] pre env st nok
  have 2: "snd (doubao_generate (env_responding (json_response 429 JNull)) example_request ())
       = Inr \<lparr>images = [], errorReason = Some TOO_MANY_REQUESTS\<rparr>"
    and 6: "snd (qwen_generate (env_responding (json_response 429 JNull)) example_request ())
       = Inr \<lparr>images = [], errorReason = Some TOO_MANY_REQUESTS\<rparr>"
    by simp_all
  from c [of "env_responding ?flag" ?flag] pre env st bd nok
  have 3: "snd (doubao_generate (env_responding ?flag) example_request ())
       = Inr \<lparr>images = [], errorReason = Some PROMPT_FLAGGED\<rparr>"
    and 7: "snd (qwen_generate (env_responding ?flag) example_request ())
       = Inr \<lparr>images = [], errorReason = Some PROMPT_FLAGGED\<rparr>"
    by simp_all
  from c [of "env_responding ?other" ?other] env st bd nok
  have 11: "snd (qwen_generate (env_responding ?other) example_request ()) = Inl (qwen_apiError ?other)"
    by simp
  from c [of "env_responding ?html" ?html] env st bd nok
  have 12: "snd (qwen_generate (env_responding ?html) example_request ()) = Inl (Thrown SyntaxError None)"
    by simp
  from c [of "env_responding ?null" ?null] env st bd nok
  have 13: "snd (qwen_generate (env_responding ?null) example_request ()) = Inl (Thrown TypeError None)"
    by simp
  from c [of "env_responding ?busy" ?busy] pre env st nok msg
  have 4: "snd (doubao_generate (env_responding ?busy) example_request ())
       = Inl (Thrown (JsError [Lit ''Doubao API error: '', Interp (JStr ''overloaded'')]) None)"
    by simp
  from c [of "env_responding ?bad" ?bad] pre env st nok msg qmsg
  have 14: "snd (doubao_generate (env_responding ?bad) example_request ())
       = Inl (Thrown (JsError [Lit ''Doubao API error: '', Interp (JStr ''unexpected'')]) None)"
    and 8: "snd (qwen_generate (env_responding ?bad) example_request ())
       = Inl (Thrown (JsError [Lit ''Qwen API error: '', Interp (JNum 502), Lit '' '',
                               Interp (JStr ''unexpected''), Lit '' - '', Interp (JStr ''<html>'')])
                     None)"
    and 9: "image_events (fst (doubao_generate (env_responding ?bad) example_request ())) = []"
    and 10: "image_events (fst (qwen_generate (env_responding ?bad) example_request ())) = []"
    by simp_all
  from nok 1 2 3 4 5 6 7 8 9 10 11 12 13 14 show ?thesis by simp
qed

text \<open>
  The claim, as stated, fails on Doubao: a response with status 400 whose body has no
  content-policy code is returned as \<open>PROMPT_FLAGGED\<close>, not thrown.
\<close>

theorem doubao_plain_400_counterexample:
  "status (json_response 400 (JObj [])) = 400
   \<and> member (JObj []) ''code'' = None
   \<and> snd (doubao_generate (env_responding (json_response 400 (JObj []))) example_request ())
       = Inr \<lparr>images = [], errorReason = Some PROMPT_FLAGGED\<rparr>"
  by (simp add: example_defs doubao_defs)

section \<open>The shape of a returned result\<close>

lemma returned_Inr: "returned x = Inr res \<Longrightarrow> errorReason res = None"
  by (cases x) auto

lemma doubao_notOk_Inr: "doubao_notOk r = Inr res \<Longrightarrow> images res = []"
  by (auto simp: doubao_notOk_def split: if_splits)

lemma doubao_catch_Inr: "doubao_catch e = Inr res \<Longrightarrow> images res = []"
  by (auto simp: doubao_catch_def split: if_splits)

lemma qwen_catch_Inr: "qwen_catch e = Inr res \<Longrightarrow> images res = []"
  by (cases e rule: qwen_catch.cases) auto

lemma doubao_onOk_Inr: "snd (doubao_onOk env r) = Inr res \<Longrightarrow> errorReason res = None"
  by (auto simp: doubao_onOk_def typeError_def syntaxError_def
           split: option.splits sum.splits dest: returned_Inr)

lemma qwen_onOk_Inr: "snd (qwen_onOk env r) = Inr res \<Longrightarrow> errorReason res = None"
  by (auto simp: qwen_onOk_def split: option.splits sum.splits dest: returned_Inr)

lemma doubao_try_Inr:
  "snd (doubao_try env request s sz) = Inr res \<Longrightarrow> errorReason res = None \<or> images res = []"
  by (auto simp: doubao_try_def split: sum.splits if_splits
           dest: doubao_onOk_Inr doubao_notOk_Inr)

lemma qwen_try_Inr:
  "snd (qwen_try env request settings) = Inr res \<Longrightarrow> errorReason res = None"
  by (auto simp: qwen_try_def split: sum.splits if_splits dest: qwen_onOk_Inr)

lemma doubao_generate_Inr:
  "snd (doubao_generate env request settings) = Inr res
   \<Longrightarrow> errorReason res = None \<or> images res = []"
  by (auto simp: doubao_generate_def split: sum.splits
           dest: doubao_try_Inr doubao_catch_Inr)

lemma qwen_generate_Inr:
  "snd (qwen_generate env request settings) = Inr res
   \<Longrightarrow> errorReason res = None \<or> images res = []"
  by (auto simp: qwen_generate_def split: sum.splits
           dest: qwen_try_Inr qwen_catch_Inr)

lemma resolve_direct_unrecognized:
  "unrecognized entry \<Longrightarrow> resolve_direct env entry = ([], Inr Undefined)"
  by (simp add: unrecognized_def resolve_direct_def)

lemma doubao_resolve_unrecognized:
  "unrecognized entry \<Longrightarrow> doubao_resolve env entry = ([], Inr Undefined)"
  by (simp add: doubao_resolve_def resolve_direct_unrecognized) (simp add: unrecognized_def)

lemma qwen_content_loop_plain:
  "list_all plain_item items \<Longrightarrow> qwen_content_loop env items = None"
  by (induction items) (simp_all add: plain_item_def)

lemma qwen_resolve_no_choice:
  "entry \<noteq> JNull \<Longrightarrow> no_choice_image entry \<Longrightarrow> qwen_resolve env entry = resolve_direct env entry"
  by (auto simp: qwen_resolve_def no_choice_image_def qwen_content_loop_plain
           split: option.splits sum.splits)

lemma qwen_resolve_unrecognized:
  "qwen_unrecognized entry \<Longrightarrow> qwen_resolve env entry = ([], Inr Undefined)"
  by (simp add: qwen_unrecognized_def qwen_resolve_no_choice resolve_direct_unrecognized
        unrecognized_def)

lemma gather_all_undefined:
  "list_all (\<lambda>e. f e = ([], Inr Undefined)) entries \<Longrightarrow> gather (map f entries) = ([], Inr [])"
  by (induction entries) (auto simp: gather_def split: sum.splits)

text \<open>
  C2. A result that a call of either adapter returns never has both images and an
  error reason: where \<open>errorReason\<close> is set, \<open>images\<close> is the empty list. A 2xx
  response whose JSON holds recognized entries nowhere (the probe finds no array, an
  empty one, or one whose entries no format recognizes) is returned as
  \<^verbatim>\<open>{ images: [] }\<close> with no error reason.
\<close>

theorem result_invariant:
  "(\<forall>res. snd (doubao_generate env request settings) = Inr res
        \<longrightarrow> (errorReason res = None \<or> images res = []))
 \<and> (\<forall>res. snd (qwen_generate env request settings) = Inr res
        \<longrightarrow> (errorReason res = None \<or> images res = []))
 \<and> (doParseSettings env settings = Inr s
    \<and> findModel doubao_models (modelId request) = Inr m
    \<and> chooseAblility request (model_ability m) = Inr a
    \<and> fetch env (doubao_httpRequest s request (doubao_size request)) = Inr r
    \<and> ok r \<and> body_json r = Some j
    \<and> doubao_imageData j = Inr entries \<and> list_all unrecognized entries
    \<longrightarrow> snd (doubao_generate env request settings) = Inr \<lparr>images = [], errorReason = None\<rparr>)
 \<and> (doParseSettings env settings = Inr s
    \<and> fetch env (qwen_httpRequest s request) = Inr r
    \<and> ok r \<and> body_json r = Some j
    \<and> qwen_imageData j = Inr entries \<and> list_all qwen_unrecognized entries
    \<longrightarrow> snd (qwen_generate env request settings) = Inr \<lparr>images = [], errorReason = None\<rparr>)"
proof (intro conjI allI impI)
  fix res assume "snd (doubao_generate env request settings) = Inr res"
  then show "errorReason res = None \<or> images res = []"
    by (rule doubao_generate_Inr)
next
  fix res assume "snd (qwen_generate env request settings) = Inr res"
  then show "errorReason res = None \<or> images res = []"
    by (rule qwen_generate_Inr)
next
  assume h: "doParseSettings env settings = Inr s
    \<and> findModel doubao_models (modelId request) = Inr m
    \<and> chooseAblility request (model_ability m) = Inr a
    \<and> fetch env (doubao_httpRequest s request (doubao_size request)) = Inr r
    \<and> ok r \<and> body_json r = Some j
    \<and> doubao_imageData j = Inr entries \<and> list_all unrecognized entries"
  then have "list_all (\<lambda>e. doubao_resolve env e = ([], Inr Undefined)) entries"
    by (auto simp: list_all_iff doubao_resolve_unrecognized)
  then have "gather (map (doubao_resolve env) entries) = ([], Inr [])"
    by (rule gather_all_undefined)
  with h have "snd (doubao_onOk env r) = Inr \<lparr>images = [], errorReason = None\<rparr>"
    by (simp add: doubao_onOk_def)
  with h show "snd (doubao_generate env request settings) = Inr \<lparr>images = [], errorReason = None\<rparr>"
    using doubao_reaches_response [of env settings s request m a r] by simp
next
  assume h: "doParseSettings env settings = Inr s
    \<and> fetch env (qwen_httpRequest s request) = Inr r
    \<and> ok r \<and> body_json r = Some j
    \<and> qwen_imageData j = Inr entries \<and> list_all qwen_unrecognized entries"
  then have "list_all (\<lambda>e. qwen_resolve env e = ([], Inr Undefined)) entries"
    by (auto simp: list_all_iff qwen_resolve_unrecognized)
  then have "gather (map (qwen_resolve env) entries) = ([], Inr [])"
    by (rule gather_all_undefined)
  with h have "snd (qwen_onOk env r) = Inr \<lparr>images = [], errorReason = None\<rparr>"
    by (simp add: qwen_onOk_def)
  with h show "snd (qwen_generate env request settings) = Inr \<lparr>images = [], errorReason = None\<rparr>"
    using qwen_reaches_response [of env settings s request r] by simp
qed

theorem result_invariant_witness:
  "snd (doubao_generate (env_responding (json_response 401 JNull)) example_request ())
     = Inr \<lparr>images = [], errorReason = Some CONFIG_ERROR\<rparr>
   \<and> (errorReason \<lparr>images = [], errorReason = Some CONFIG_ERROR\<rparr> = None
        \<or> images \<lparr>images = [], errorReason = Some CONFIG_ERROR\<rparr> = [])
   \<and> snd (qwen_generate (env_responding (json_response 429 JNull)) example_request ())
     = Inr \<lparr>images = [], errorReason = Some TOO_MANY_REQUESTS\<rparr>
   \<and> ok (json_response 200 (JObj [(''data'', JArr [JObj [(''seed'', JNum 7)]])]))
   \<and> doubao_imageData (JObj [(''data'', JArr [JObj [(''seed'', JNum 7)]])])
       = Inr [JObj [(''seed'', JNum 7)]]
   \<and> list_all unrecognized [JObj [(''seed'', JNum 7)]]
   \<and> snd (doubao_generate
          (env_responding (json_response 200 (JObj [(''data'', JArr [JObj [(''seed'', JNum 7)]])])))
          example_request ())
       = Inr \<lparr>images = [], errorReason = None\<rparr>
   \<and> qwen_imageData (JObj [(''data'', JArr [JObj [(''seed'', JNum 7)]])])
       = Inr [JObj [(''seed'', JNum 7)]]
   \<and> list_all qwen_unrecognized [JObj [(''seed'', JNum 7)]]
   \<and> snd (qwen_generate
          (env_responding (json_response 200 (JObj [(''data'', JArr [JObj [(''seed'', JNum 7)]])])))
          example_request ())
       = Inr \<lparr>images = [], errorReason = None\<rparr>"
proof -
  let ?j = "JObj [(''data'', JArr [JObj [(''seed'', JNum 7)]])]"
  let ?r = "json_response 200 ?j"
  let ?m = "hd doubao_models"
  have pre: "findModel doubao_models (modelId example_request) = Inr ?m"
    "chooseAblility example_request (model_ability ?m) = Inr T2I"
    by (simp_all add: findModel_def doubao_models_def example_request_def
          chooseAblility_def has_images_def)
  have env: "doParseSettings (env_responding r) () = Inr example_settings"
    "fetch (env_responding r) h = Inr r" for r h
    by (simp_all add: env_responding_def)
  have r: "ok ?r" "body_json ?r = Some ?j"
    by (simp_all add: ok_def json_response_def)
  have d: "doubao_imageData ?j = Inr [JObj [(''seed'', JNum 7)]]"
    by (simp add: doubao_imageData_def)
  have q: "qwen_imageData ?j = Inr [JObj [(''seed'', JNum 7)]]"
    by (simp add: qwen_imageData_def qwen_imageData_rest_def truthy_member_def)
  have u: "list_all unrecognized [JObj [(''seed'', JNum 7)]]"
    by (simp add: unrecognized_def truthy_member_def)
  have qu: "list_all qwen_unrecognized [JObj [(''seed'', JNum 7)]]"
    by (simp add: qwen_unrecognized_def no_choice_image_def unrecognized_def truthy_member_def)
  have e1: "snd (doubao_generate (env_responding (json_response 401 JNull)) example_request ())
     = Inr \<lparr>images = [], errorReason = Some CONFIG_ERROR\<rparr>"
    by (simp add: example_defs doubao_defs)
  have e2: "snd (qwen_generate (env_responding (json_response 429 JNull)) example_request ())
     = Inr \<lparr>images = [], errorReason = Some TOO_MANY_REQUESTS\<rparr>"
    by (simp add: example_defs qwen_defs)
  from result_invariant [of "env_responding (json_response 401 JNull)" example_request "()"] e1
  have 1: "errorReason \<lparr>images = [], errorReason = Some CONFIG_ERROR\<rparr> = None
        \<or> images \<lparr>images = [], errorReason = Some CONFIG_ERROR\<rparr> = []"
    by blast
  from result_invariant [of "env_responding ?r" example_request "()" example_settings ?m T2I ?r ?j
      "[JObj [(''seed'', JNum 7)]]"] pre env r d q u qu
  have 2: "snd (doubao_generate (env_responding ?r) example_request ())
       = Inr \<lparr>images = [], errorReason = None\<rparr>"
    and 3: "snd (qwen_generate (env_responding ?r) example_request ())
       = Inr \<lparr>images = [], errorReason = None\<rparr>"
    by blast+
  from e1 e2 1 2 3 r d q u qu show ?thesis by blast
qed

section \<open>Response normalization\<close>

lemma filter_Boolean_kept: "filter_Boolean vs = List.map_filter kept vs"
  by (induction vs rule: filter_Boolean.induct) simp_all

lemma decode_kept:
  "base64ToDataURI env b = Inr d \<Longrightarrow> \<exists>v. snd (decode env b) = Inr v \<and> kept v = decoded env b"
  by (simp add: decode_def decoded_def)

lemma fetch_or_null_kept: "\<exists>v. snd (fetch_or_null env u) = Inr v \<and> kept v = fetched env u"
  by (cases "fetchUrlToDataURI env u") (simp_all add: fetch_or_null_def fetched_def)

lemma resolve_direct_kept:
  assumes "accepts env entry ''b64_json''" and "accepts env entry ''base64''"
  shows "\<exists>v. snd (resolve_direct env entry) = Inr v \<and> kept v = direct_image env entry"
  using assms fetch_or_null_kept [of env]
  by (auto simp: resolve_direct_def direct_image_def accepts_def
           split: option.splits sum.splits intro: decode_kept)

lemma doubao_resolve_kept:
  "wellformed env entry
   \<Longrightarrow> \<exists>v. snd (doubao_resolve env entry) = Inr v \<and> kept v = direct_image env entry"
  by (simp add: wellformed_def doubao_resolve_def resolve_direct_kept)

lemma qwen_item_image_kept:
  "image_ok env v \<Longrightarrow> \<exists>w. snd (qwen_item_image env v) = Inr w \<and> kept w = item_image env v"
  using fetch_or_null_kept [of env]
  by (cases v) (auto split: if_splits sum.splits intro: decode_kept)

lemma qwen_content_loop_kept:
  "list_all (item_ok env) items \<Longrightarrow>
     (case qwen_content_loop env items of
        None \<Rightarrow> choice_image env items = None
      | Some res \<Rightarrow> \<exists>w. snd res = Inr w \<and> choice_image env items = Some (kept w))"
proof (induction items)
  case Nil
  then show ?case by simp
next
  case (Cons item items)
  from Cons.prems have ok: "item_ok env item" and rest: "list_all (item_ok env) items"
    by simp_all
  from ok have item: "item \<noteq> JNull"
    by (simp add: item_ok_def)
  show ?case
  proof (cases "truthy_member item ''image''")
    case (Some v)
    with ok have "image_ok env v"
      by (simp add: item_ok_def)
    then obtain w where "snd (qwen_item_image env v) = Inr w" "kept w = item_image env v"
      using qwen_item_image_kept by blast
    with Some item show ?thesis by simp
  next
    case None
    show ?thesis
    proof (cases "truthy_member item ''image_url''")
      case (Some u)
      obtain w where "snd (fetch_or_null env u) = Inr w" "kept w = fetched env u"
        using fetch_or_null_kept by blast
      with Some None item show ?thesis by simp
    next
      case none: None
      with None item Cons.IH [OF rest] show ?thesis
        by (auto split: option.splits)
    qed
  qed
qed

lemma qwen_resolve_kept:
  assumes "qwen_wellformed env entry"
  shows "\<exists>v. snd (qwen_resolve env entry) = Inr v \<and> kept v = qwen_image env entry"
proof -
  from assms have w: "entry \<noteq> JNull" "accepts env entry ''b64_json''" "accepts env entry ''base64''"
    and c: "content_ok env entry"
    by (simp_all add: qwen_wellformed_def wellformed_def)
  note d = resolve_direct_kept [OF w(2,3)]
  show ?thesis
  proof (cases "truthy_member entry ''message''")
    case None
    with w d show ?thesis
      by (simp add: qwen_resolve_def qwen_image_def content_items_def)
  next
    case (Some msg)
    show ?thesis
    proof (cases "truthy_member msg ''content''")
      case None
      with Some w d show ?thesis
        by (simp add: qwen_resolve_def qwen_image_def content_items_def)
    next
      case content: (Some content)
      with Some c obtain items where i: "iterate content = Inr items"
        and ok: "list_all (item_ok env) items"
        by (auto simp: content_ok_def split: sum.splits)
      from qwen_content_loop_kept [OF ok] Some content i w d show ?thesis
        by (auto simp: qwen_resolve_def qwen_image_def content_items_def split: option.splits)
    qed
  qed
qed

lemma gather_kept:
  "list_all (\<lambda>e. \<exists>v. snd (f e) = Inr v \<and> kept v = g e) entries
   \<Longrightarrow> snd (gather (map f entries)) = Inr (List.map_filter g entries)"
proof (induction entries)
  case Nil
  then show ?case by (simp add: gather_def)
next
  case (Cons e entries)
  then obtain v where v: "snd (f e) = Inr v" "g e = kept v"
    by auto
  from Cons have "snd (gather (map f entries)) = Inr (List.map_filter g entries)"
    by simp
  then obtain vs where vs: "promise_all (map (snd \<circ> f) entries) = Inr vs"
    "filter_Boolean vs = List.map_filter g entries"
    by (auto simp: gather_def split: sum.splits)
  with v show ?case
    by (cases v) (auto simp: gather_def)
qed

text \<open>
  C3, amended. Take a 2xx response whose entries are found and are such that
  \<^item> no entry is \<^verbatim>\<open>null\<close>,
  \<^item> the base64 helper throws on no entry's truthy \<^verbatim>\<open>b64_json\<close> or \<^verbatim>\<open>base64\<close>,
  \<^item> Qwen: every truthy \<^verbatim>\<open>message.content\<close> is an array or a string, none of its
    items is \<^verbatim>\<open>null\<close>, and every truthy \<^verbatim>\<open>image\<close> of an item is a string that
    starts with \<^verbatim>\<open>http\<close> or on which the helper does not throw.
  Then the call returns a result without error reason whose images are the entries'
  images in order, nothing standing in for an entry without one. An entry's image is
  that of its first truthy field in the order \<^verbatim>\<open>b64_json\<close> (decoded), \<^verbatim>\<open>url\<close>
  (fetched), \<^verbatim>\<open>image_url\<close> (fetched), \<^verbatim>\<open>base64\<close> (decoded); Qwen first takes the
  first item of \<^verbatim>\<open>message.content\<close> that has a truthy \<^verbatim>\<open>image\<close> (fetched when it
  starts with \<^verbatim>\<open>http\<close>, decoded otherwise) or \<^verbatim>\<open>image_url\<close> (fetched). A URL that
  cannot be fetched costs its own entry only, and an entry with none of the fields has
  no image. The witness is the response with one reachable and one unreachable URL:
  exactly one image.
\<close>

theorem image_resolution:
  "(doParseSettings env settings = Inr s
    \<and> findModel doubao_models (modelId request) = Inr m
    \<and> chooseAblility request (model_ability m) = Inr a
    \<and> fetch env (doubao_httpRequest s request (doubao_size request)) = Inr r
    \<and> ok r \<and> body_json r = Some j
    \<and> doubao_imageData j = Inr entries \<and> list_all (wellformed env) entries
    \<longrightarrow> snd (doubao_generate env request settings)
          = Inr \<lparr>images = List.map_filter (direct_image env) entries, errorReason = None\<rparr>)
 \<and> (doParseSettings env settings = Inr s
    \<and> fetch env (qwen_httpRequest s request) = Inr r
    \<and> ok r \<and> body_json r = Some j
    \<and> qwen_imageData j = Inr entries \<and> list_all (qwen_wellformed env) entries
    \<longrightarrow> snd (qwen_generate env request settings)
          = Inr \<lparr>images = List.map_filter (qwen_image env) entries, errorReason = None\<rparr>)"
proof (intro conjI impI)
  assume h: "doParseSettings env settings = Inr s
    \<and> findModel doubao_models (modelId request) = Inr m
    \<and> chooseAblility request (model_ability m) = Inr a
    \<and> fetch env (doubao_httpRequest s request (doubao_size request)) = Inr r
    \<and> ok r \<and> body_json r = Some j
    \<and> doubao_imageData j = Inr entries \<and> list_all (wellformed env) entries"
  then have "list_all (\<lambda>e. \<exists>v. snd (doubao_resolve env e) = Inr v \<and> kept v = direct_image env e) entries"
    by (simp add: list_all_iff doubao_resolve_kept)
  then have "snd (gather (map (doubao_resolve env) entries))
      = Inr (List.map_filter (direct_image env) entries)"
    by (rule gather_kept)
  with h have "snd (doubao_onOk env r)
      = Inr \<lparr>images = List.map_filter (direct_image env) entries, errorReason = None\<rparr>"
    by (simp add: doubao_onOk_def)
  with h show "snd (doubao_generate env request settings)
      = Inr \<lparr>images = List.map_filter (direct_image env) entries, errorReason = None\<rparr>"
    using doubao_reaches_response [of env settings s request m a r] by simp
next
  assume h: "doParseSettings env settings = Inr s
    \<and> fetch env (qwen_httpRequest s request) = Inr r
    \<and> ok r \<and> body_json r = Some j
    \<and> qwen_imageData j = Inr entries \<and> list_all (qwen_wellformed env) entries"
  then have "list_all (\<lambda>e. \<exists>v. snd (qwen_resolve env e) = Inr v \<and> kept v = qwen_image env e) entries"
    by (simp add: list_all_iff qwen_resolve_kept)
  then have "snd (gather (map (qwen_resolve env) entries))
      = Inr (List.map_filter (qwen_image env) entries)"
    by (rule gather_kept)
  with h have "snd (qwen_onOk env r)
      = Inr \<lparr>images = List.map_filter (qwen_image env) entries, errorReason = None\<rparr>"
    by (simp add: qwen_onOk_def)
  with h show "snd (qwen_generate env request settings)
      = Inr \<lparr>images = List.map_filter (qwen_image env) entries, errorReason = None\<rparr>"
    using qwen_reaches_response [of env settings s request r] by simp
qed

theorem image_resolution_witness:
  "ok (json_response 200 two_urls)
   \<and> fetchUrlToDataURI (env_responding (json_response 200 two_urls)) (JStr ''https://cdn.example/ok.png'')
       = Inr ''data:image/png;base64,T0s=''
   \<and> fetchUrlToDataURI (env_responding (json_response 200 two_urls)) (JStr ''https://cdn.example/gone.png'')
       = Inl (Thrown (Foreign ''fetch failed'') None)
   \<and> doubao_imageData two_urls
       = Inr [JObj [(''url'', JStr ''https://cdn.example/ok.png'')],
              JObj [(''url'', JStr ''https://cdn.example/gone.png'')]]
   \<and> qwen_imageData two_urls
       = Inr [JObj [(''url'', JStr ''https://cdn.example/ok.png'')],
              JObj [(''url'', JStr ''https://cdn.example/gone.png'')]]
   \<and> snd (doubao_generate (env_responding (json_response 200 two_urls)) example_request ())
       = Inr \<lparr>images = [''data:image/png;base64,T0s=''], errorReason = None\<rparr>
   \<and> snd (qwen_generate (env_responding (json_response 200 two_urls)) example_request ())
       = Inr \<lparr>images = [''data:image/png;base64,T0s=''], errorReason = None\<rparr>"
proof -
  let ?r = "json_response 200 two_urls"
  let ?env = "env_responding ?r"
  let ?es = "[JObj [(''url'', JStr ''https://cdn.example/ok.png'')],
              JObj [(''url'', JStr ''https://cdn.example/gone.png'')]]"
  let ?m = "hd doubao_models"
  have pre: "findModel doubao_models (modelId example_request) = Inr ?m"
    "chooseAblility example_request (model_ability ?m) = Inr T2I"
    by (simp_all add: findModel_def doubao_models_def example_request_def
          chooseAblility_def has_images_def)
  have env: "doParseSettings ?env () = Inr example_settings" "fetch ?env h = Inr ?r" for h
    by (simp_all add: env_responding_def)
  have r: "ok ?r" "body_json ?r = Some two_urls"
    by (simp_all add: ok_def json_response_def)
  have f: "fetchUrlToDataURI ?env (JStr ''https://cdn.example/ok.png'') = Inr ''data:image/png;base64,T0s=''"
    "fetchUrlToDataURI ?env (JStr ''https://cdn.example/gone.png'') = Inl (Thrown (Foreign ''fetch failed'') None)"
    by (simp_all add: env_responding_def example_fetchUrl_def)
  have d: "doubao_imageData two_urls = Inr ?es"
    by (simp add: doubao_imageData_def two_urls_def)
  have q: "qwen_imageData two_urls = Inr ?es"
    by (simp add: qwen_imageData_def qwen_imageData_rest_def truthy_member_def two_urls_def)
  have w: "list_all (wellformed ?env) ?es"
    by (simp add: wellformed_def accepts_def truthy_member_def)
  have qw: "list_all (qwen_wellformed ?env) ?es"
    by (simp add: qwen_wellformed_def content_ok_def wellformed_def accepts_def truthy_member_def)
  have di: "List.map_filter (direct_image ?env) ?es = [''data:image/png;base64,T0s='']"
    by (simp add: direct_image_def truthy_member_def fetched_def f)
  have qi: "List.map_filter (qwen_image ?env) ?es = [''data:image/png;base64,T0s='']"
    by (simp add: qwen_image_def content_items_def direct_image_def truthy_member_def fetched_def f)
  from image_resolution [of ?env "()" example_settings example_request ?m T2I ?r two_urls ?es]
    pre env r d q w qw
  have "snd (doubao_generate ?env example_request ())
       = Inr \<lparr>images = List.map_filter (direct_image ?env) ?es, errorReason = None\<rparr>"
    and "snd (qwen_generate ?env example_request ())
       = Inr \<lparr>images = List.map_filter (qwen_image ?env) ?es, errorReason = None\<rparr>"
    by blast+
  with di qi r f d q show ?thesis by simp
qed

text \<open>
  The claim, as stated, fails: an entry with a reachable \<^verbatim>\<open>url\<close> and a valid
  \<^verbatim>\<open>base64\<close> payload is resolved by fetching the URL, and the payload is never
  decoded.
\<close>

theorem base64_after_url_counterexample:
  "doubao_imageData url_and_base64
     = Inr [JObj [(''url'', JStr ''https://cdn.example/ok.png''), (''base64'', JStr ''QUJD'')]]
   \<and> base64ToDataURI (env_responding (json_response 200 url_and_base64)) (JStr ''QUJD'')
       = Inr ''data:image/png;base64,QUJD''
   \<and> image_events (fst (doubao_generate (env_responding (json_response 200 url_and_base64)) example_request ()))
       = [FetchUrl (JStr ''https://cdn.example/ok.png'')]
   \<and> snd (doubao_generate (env_responding (json_response 200 url_and_base64)) example_request ())
       = Inr \<lparr>images = [''data:image/png;base64,T0s=''], errorReason = None\<rparr>"
  by (simp add: url_and_base64_def example_defs doubao_defs)

section \<open>One base64 entry\<close>

lemma truthy_member_not_null: "truthy_member entry k = Some v \<Longrightarrow> entry \<noteq> JNull"
  by (auto simp: truthy_member_def)

lemma carries_base64_not_null: "carries_base64 env entry d \<Longrightarrow> entry \<noteq> JNull"
  by (auto simp: carries_base64_def split: option.splits dest: truthy_member_not_null)

lemma resolve_direct_base64:
  "carries_base64 env entry d \<Longrightarrow>
     snd (resolve_direct env entry) = Inr (DataURI d)
     \<and> (\<exists>b. fst (resolve_direct env entry) = [DecodeBase64 b])"
  by (auto simp: carries_base64_def resolve_direct_def decode_def split: option.splits)

lemma gather_single:
  "snd x = Inr (DataURI d) \<Longrightarrow> d \<noteq> [] \<Longrightarrow> gather [x] = (fst x, Inr [d])"
  by (simp add: gather_def)

text \<open>
  C9, amended. Take a 2xx response with exactly one entry, whose \<^verbatim>\<open>b64_json\<close> is
  truthy, or which has no truthy \<^verbatim>\<open>b64_json\<close>, \<^verbatim>\<open>url\<close> or \<^verbatim>\<open>image_url\<close> and whose
  \<^verbatim>\<open>base64\<close> is truthy, and let the base64 helper turn that payload into a
  non-empty string. On Qwen let the entry, besides, have no truthy
  \<^verbatim>\<open>message.content\<close>, or one that is an array or a string whose items are all
  not \<^verbatim>\<open>null\<close> and have neither a truthy \<^verbatim>\<open>image\<close> nor a truthy \<^verbatim>\<open>image_url\<close>.
  Then the call returns exactly one image: what the helper makes of that payload,
  after one decoding and no fetch.
\<close>

theorem base64_roundtrip:
  "(doParseSettings env settings = Inr s
    \<and> findModel doubao_models (modelId request) = Inr m
    \<and> chooseAblility request (model_ability m) = Inr a
    \<and> fetch env (doubao_httpRequest s request (doubao_size request)) = Inr r
    \<and> ok r \<and> body_json r = Some j
    \<and> doubao_imageData j = Inr [entry] \<and> carries_base64 env entry d
    \<longrightarrow> snd (doubao_generate env request settings) = Inr \<lparr>images = [d], errorReason = None\<rparr>
      \<and> (\<exists>b. image_events (fst (doubao_generate env request settings)) = [DecodeBase64 b]))
 \<and> (doParseSettings env settings = Inr s
    \<and> fetch env (qwen_httpRequest s request) = Inr r
    \<and> ok r \<and> body_json r = Some j
    \<and> qwen_imageData j = Inr [entry] \<and> carries_base64 env entry d \<and> no_choice_image entry
    \<longrightarrow> snd (qwen_generate env request settings) = Inr \<lparr>images = [d], errorReason = None\<rparr>
      \<and> (\<exists>b. image_events (fst (qwen_generate env request settings)) = [DecodeBase64 b]))"
proof (intro conjI impI)
  assume h: "doParseSettings env settings = Inr s
    \<and> findModel doubao_models (modelId request) = Inr m
    \<and> chooseAblility request (model_ability m) = Inr a
    \<and> fetch env (doubao_httpRequest s request (doubao_size request)) = Inr r
    \<and> ok r \<and> body_json r = Some j
    \<and> doubao_imageData j = Inr [entry] \<and> carries_base64 env entry d"
  then have c: "carries_base64 env entry d" and d: "d \<noteq> []"
    by (simp_all add: carries_base64_def)
  from c have res: "doubao_resolve env entry = resolve_direct env entry"
    by (simp add: doubao_resolve_def carries_base64_not_null)
  from resolve_direct_base64 [OF c] obtain b where
    b: "snd (resolve_direct env entry) = Inr (DataURI d)"
       "fst (resolve_direct env entry) = [DecodeBase64 b]"
    by blast
  from b d have g: "gather [resolve_direct env entry] = ([DecodeBase64 b], Inr [d])"
    by (simp add: gather_single)
  with h res have on: "doubao_onOk env r = ([DecodeBase64 b], Inr \<lparr>images = [d], errorReason = None\<rparr>)"
    by (simp add: doubao_onOk_def)
  with h have gen: "doubao_generate env request settings =
      ([HttpPost (doubao_httpRequest s request (doubao_size request)), DecodeBase64 b],
       Inr \<lparr>images = [d], errorReason = None\<rparr>)"
    using doubao_reaches_response [of env settings s request m a r] by simp
  show "snd (doubao_generate env request settings) = Inr \<lparr>images = [d], errorReason = None\<rparr>"
    by (simp add: gen)
  show "\<exists>b. image_events (fst (doubao_generate env request settings)) = [DecodeBase64 b]"
    by (simp add: gen)
next
  assume h: "doParseSettings env settings = Inr s
    \<and> fetch env (qwen_httpRequest s request) = Inr r
    \<and> ok r \<and> body_json r = Some j
    \<and> qwen_imageData j = Inr [entry] \<and> carries_base64 env entry d \<and> no_choice_image entry"
  then have c: "carries_base64 env entry d" and d: "d \<noteq> []"
    by (simp_all add: carries_base64_def)
  from h have nc: "no_choice_image entry"
    by simp
  from carries_base64_not_null [OF c] nc
  have res: "qwen_resolve env entry = resolve_direct env entry"
    by (rule qwen_resolve_no_choice)
  from resolve_direct_base64 [OF c] obtain b where
    b: "snd (resolve_direct env entry) = Inr (DataURI d)"
       "fst (resolve_direct env entry) = [DecodeBase64 b]"
    by blast
  from b d have g: "gather [resolve_direct env entry] = ([DecodeBase64 b], Inr [d])"
    by (simp add: gather_single)
  with h res have on: "qwen_onOk env r = ([DecodeBase64 b], Inr \<lparr>images = [d], errorReason = None\<rparr>)"
    by (simp add: qwen_onOk_def)
  with h have gen: "qwen_generate env request settings =
      ([HttpPost (qwen_httpRequest s request), DecodeBase64 b],
       Inr \<lparr>images = [d], errorReason = None\<rparr>)"
    using qwen_reaches_response [of env settings s request r] by simp
  show "snd (qwen_generate env request settings) = Inr \<lparr>images = [d], errorReason = None\<rparr>"
    by (simp add: gen)
  show "\<exists>b. image_events (fst (qwen_generate env request settings)) = [DecodeBase64 b]"
    by (simp add: gen)
qed

theorem base64_roundtrip_witness:
  "ok (json_response 200 one_b64_json)
   \<and> doubao_imageData one_b64_json = Inr [JObj [(''b64_json'', JStr ''QUJD'')]]
   \<and> carries_base64 (env_responding (json_response 200 one_b64_json))
        (JObj [(''b64_json'', JStr ''QUJD'')]) ''data:image/png;base64,QUJD''
   \<and> snd (doubao_generate (env_responding (json_response 200 one_b64_json)) example_request ())
       = Inr \<lparr>images = [''data:image/png;base64,QUJD''], errorReason = None\<rparr>
   \<and> ok (json_response 200 one_base64)
   \<and> qwen_imageData one_base64 = Inr [JObj [(''base64'', JStr ''QUJD'')]]
   \<and> carries_base64 (env_responding (json_response 200 one_base64))
        (JObj [(''base64'', JStr ''QUJD'')]) ''data:image/png;base64,QUJD''
   \<and> no_choice_image (JObj [(''base64'', JStr ''QUJD'')])
   \<and> snd (qwen_generate (env_responding (json_response 200 one_base64)) example_request ())
       = Inr \<lparr>images = [''data:image/png;base64,QUJD''], errorReason = None\<rparr>"
proof -
  let ?r1 = "json_response 200 one_b64_json"
  let ?r2 = "json_response 200 one_base64"
  let ?e1 = "JObj [(''b64_json'', JStr ''QUJD'')]"
  let ?e2 = "JObj [(''base64'', JStr ''QUJD'')]"
  let ?d = "''data:image/png;base64,QUJD''"
  let ?m = "hd doubao_models"
  have pre: "findModel doubao_models (modelId example_request) = Inr ?m"
    "chooseAblility example_request (model_ability ?m) = Inr T2I"
    by (simp_all add: findModel_def doubao_models_def example_request_def
          chooseAblility_def has_images_def)
  have env: "doParseSettings (env_responding r) () = Inr example_settings"
    "fetch (env_responding r) h = Inr r" for r h
    by (simp_all add: env_responding_def)
  have r: "ok ?r1" "body_json ?r1 = Some one_b64_json" "ok ?r2" "body_json ?r2 = Some one_base64"
    by (simp_all add: ok_def json_response_def)
  have d: "doubao_imageData one_b64_json = Inr [?e1]"
    by (simp add: doubao_imageData_def one_b64_json_def)
  have q: "qwen_imageData one_base64 = Inr [?e2]"
    by (simp add: qwen_imageData_def qwen_imageData_rest_def truthy_member_def one_base64_def)
  have c1: "carries_base64 (env_responding ?r1) ?e1 ?d"
    by (simp add: carries_base64_def truthy_member_def env_responding_def)
  have c2: "carries_base64 (env_responding ?r2) ?e2 ?d"
    by (simp add: carries_base64_def truthy_member_def env_responding_def)
  have nc: "no_choice_image ?e2"
    by (simp add: no_choice_image_def truthy_member_def)
  from base64_roundtrip [of "env_responding ?r1" "()" example_settings example_request ?m T2I ?r1
      one_b64_json ?e1 ?d] pre env r d c1
  have 1: "snd (doubao_generate (env_responding ?r1) example_request ())
       = Inr \<lparr>images = [?d], errorReason = None\<rparr>"
    by blast
  from base64_roundtrip [of "env_responding ?r2" "()" example_settings example_request ?m T2I ?r2
      one_base64 ?e2 ?d] env r q c2 nc
  have 2: "snd (qwen_generate (env_responding ?r2) example_request ())
       = Inr \<lparr>images = [?d], errorReason = None\<rparr>"
    by blast
  from r d q c1 c2 nc 1 2 show ?thesis by blast
qed

text \<open>
  The claim, as stated, fails: one entry with a valid \<^verbatim>\<open>base64\<close> payload and a URL
  that cannot be fetched yields no image at all.
\<close>

theorem base64_roundtrip_counterexample:
  "doubao_imageData gone_url_and_base64
     = Inr [JObj [(''url'', JStr ''https://cdn.example/gone.png''), (''base64'', JStr ''QUJD'')]]
   \<and> truthy_member (JObj [(''url'', JStr ''https://cdn.example/gone.png''), (''base64'', JStr ''QUJD'')]) ''base64''
       = Some (JStr ''QUJD'')
   \<and> base64ToDataURI (env_responding (json_response 200 gone_url_and_base64)) (JStr ''QUJD'')
       = Inr ''data:image/png;base64,QUJD''
   \<and> snd (doubao_generate (env_responding (json_response 200 gone_url_and_base64)) example_request ())
       = Inr \<lparr>images = [], errorReason = None\<rparr>"
  by (simp add: gone_url_and_base64_def example_defs doubao_defs)

section \<open>The outer catch\<close>

text \<open>
  C4, amended. Doubao: an error thrown inside the \<^verbatim>\<open>try\<close> block (the settings are
  parsed before it) whose \<^verbatim>\<open>status\<close> is 401 or 404 is returned as \<open>CONFIG_ERROR\<close>
  with no images; every other error thrown there, and every error of the settings
  parser, reaches the caller unchanged. Qwen: a thrown \<open>GenError\<close> is returned as a
  result with its reason and no images; every other thrown error reaches the caller
  unchanged, whatever \<^verbatim>\<open>status\<close> it carries.
\<close>

theorem outer_catch:
  "(doParseSettings env settings = Inr s
    \<and> snd (doubao_try env request s (doubao_size request)) = Inl e
    \<longrightarrow> snd (doubao_generate env request settings)
          = (if err_status e = Some (JNum 401) \<or> err_status e = Some (JNum 404)
             then Inr \<lparr>images = [], errorReason = Some CONFIG_ERROR\<rparr>
             else Inl e))
 \<and> (doParseSettings env settings = Inl e
    \<longrightarrow> doubao_generate env request settings = ([], Inl e))
 \<and> (\<forall>reason. snd (qwen_try env request settings) = Inl e \<and> err_kind e = GenError reason
    \<longrightarrow> snd (qwen_generate env request settings)
          = Inr \<lparr>images = [], errorReason = Some reason\<rparr>)
 \<and> (snd (qwen_try env request settings) = Inl e \<and> (\<forall>reason. err_kind e \<noteq> GenError reason)
    \<longrightarrow> snd (qwen_generate env request settings) = Inl e)"
proof (intro conjI allI impI)
  assume "doParseSettings env settings = Inr s
    \<and> snd (doubao_try env request s (doubao_size request)) = Inl e"
  then show "snd (doubao_generate env request settings)
          = (if err_status e = Some (JNum 401) \<or> err_status e = Some (JNum 404)
             then Inr \<lparr>images = [], errorReason = Some CONFIG_ERROR\<rparr>
             else Inl e)"
    by (simp add: doubao_generate_def doubao_catch_def)
next
  assume "doParseSettings env settings = Inl e"
  then show "doubao_generate env request settings = ([], Inl e)"
    by (simp add: doubao_generate_def)
next
  fix reason
  assume "snd (qwen_try env request settings) = Inl e \<and> err_kind e = GenError reason"
  then show "snd (qwen_generate env request settings)
          = Inr \<lparr>images = [], errorReason = Some reason\<rparr>"
    by (cases e) (simp add: qwen_generate_def)
next
  assume h: "snd (qwen_try env request settings) = Inl e \<and> (\<forall>reason. err_kind e \<noteq> GenError reason)"
  then have "qwen_catch e = Inl e"
    by (cases e rule: qwen_catch.cases) simp_all
  with h show "snd (qwen_generate env request settings) = Inl e"
    by (simp add: qwen_generate_def)
qed

theorem outer_catch_witness:
  "snd (doubao_try (env_throwing unauthorized) example_request example_settings (doubao_size example_request))
     = Inl unauthorized
   \<and> err_status unauthorized = Some (JNum 401)
   \<and> snd (doubao_generate (env_throwing unauthorized) example_request ())
       = Inr \<lparr>images = [], errorReason = Some CONFIG_ERROR\<rparr>
   \<and> snd (doubao_try (env_throwing offline) example_request example_settings (doubao_size example_request))
       = Inl offline
   \<and> snd (doubao_generate (env_throwing offline) example_request ()) = Inl offline
   \<and> snd (qwen_try (env_responding (json_response 404 JNull)) example_request ())
       = Inl (Thrown (GenError CONFIG_ERROR) None)
   \<and> snd (qwen_generate (env_responding (json_response 404 JNull)) example_request ())
       = Inr \<lparr>images = [], errorReason = Some CONFIG_ERROR\<rparr>
   \<and> snd (qwen_try (env_throwing offline) example_request ()) = Inl offline
   \<and> snd (qwen_generate (env_throwing offline) example_request ()) = Inl offline"
proof -
  have p: "doParseSettings (env_throwing e) () = Inr example_settings"
    "doParseSettings (env_responding r) () = Inr example_settings" for e r
    by (simp_all add: env_throwing_def env_responding_def)
  have t1: "snd (doubao_try (env_throwing unauthorized) example_request example_settings
      (doubao_size example_request)) = Inl unauthorized"
    by (simp add: env_throwing_def example_defs doubao_defs)
  have t2: "snd (doubao_try (env_throwing offline) example_request example_settings
      (doubao_size example_request)) = Inl offline"
    by (simp add: env_throwing_def example_defs doubao_defs)
  have t3: "snd (qwen_try (env_responding (json_response 404 JNull)) example_request ())
       = Inl (Thrown (GenError CONFIG_ERROR) None)"
    by (simp add: example_defs qwen_defs)
  have t4: "snd (qwen_try (env_throwing offline) example_request ()) = Inl offline"
    by (simp add: env_throwing_def example_defs qwen_defs)
  have k: "err_status unauthorized = Some (JNum 401)" "err_status offline = None"
    "err_kind (Thrown (GenError CONFIG_ERROR) None) = GenError CONFIG_ERROR"
    "\<forall>reason. err_kind offline \<noteq> GenError reason"
    by (simp_all add: unauthorized_def offline_def)
  from outer_catch [of "env_throwing unauthorized" "()" example_settings example_request unauthorized]
    p t1 k
  have 1: "snd (doubao_generate (env_throwing unauthorized) example_request ())
       = Inr \<lparr>images = [], errorReason = Some CONFIG_ERROR\<rparr>"
    by simp
  from outer_catch [of "env_throwing offline" "()" example_settings example_request offline]
    p t2 t4 k
  have 2: "snd (doubao_generate (env_throwing offline) example_request ()) = Inl offline"
    and 4: "snd (qwen_generate (env_throwing offline) example_request ()) = Inl offline"
    by simp_all
  from outer_catch [of "env_responding (json_response 404 JNull)" "()" example_settings
      example_request "Thrown (GenError CONFIG_ERROR) None"] t3 k
  have 3: "snd (qwen_generate (env_responding (json_response 404 JNull)) example_request ())
       = Inr \<lparr>images = [], errorReason = Some CONFIG_ERROR\<rparr>"
    by simp
  from t1 t2 t3 t4 k 1 2 3 4 show ?thesis by simp
qed

text \<open>
  The claim, as stated, fails on Qwen: an error of the HTTP client that carries the
  status 401 is not turned into \<open>CONFIG_ERROR\<close>; it reaches the caller.
\<close>

theorem qwen_status_marker_counterexample:
  "err_status unauthorized = Some (JNum 401)
   \<and> fetch (env_throwing unauthorized) (qwen_httpRequest example_settings example_request)
       = Inl unauthorized
   \<and> snd (qwen_generate (env_throwing unauthorized) example_request ()) = Inl unauthorized"
  by (simp add: env_throwing_def unauthorized_def example_defs qwen_defs)

section \<open>Input images and capability resolution\<close>

lemma doubao_image_member:
  "member (doubao_requestBody request sz) ''image''
     = (case inputImages request of
          None \<Rightarrow> None
        | Some imgs \<Rightarrow> if imgs = [] then None else Some (JArr (map JStr imgs)))"
  by (simp add: doubao_requestBody_def split: option.splits)

text \<open>
  C5. Whatever a call of the Doubao adapter posts has the request's images under
  \<^verbatim>\<open>image\<close> when the request has any, and no member \<^verbatim>\<open>image\<close> when it has none.
  The Qwen adapter does not do what the claim says: the body it builds does not
  depend on the request's images, and for a request to its image-to-image model
  \<^verbatim>\<open>qwen-image\<close> with one input image it posts the prompt and the size alone.
\<close>

theorem input_images_attached:
  "(\<forall>b \<in> set (posted_bodies (fst (doubao_generate env request settings))).
      (\<forall>imgs. inputImages request = Some imgs \<and> imgs \<noteq> []
          \<longrightarrow> member b ''image'' = Some (JArr (map JStr imgs)))
    \<and> (\<not> has_images request \<longrightarrow> member b ''image'' = None))
 \<and> qwen_requestBody (request\<lparr>inputImages := Some imgs\<rparr>)
      = qwen_requestBody (request\<lparr>inputImages := None\<rparr>)
 \<and> posted_bodies (fst (qwen_generate (env_responding (json_response 200 (JObj []))) i2i_request ()))
      = [JObj [(''model'', JStr ''qwen-image''),
               (''input'',
                  JObj [(''messages'',
                           JArr [JObj [(''role'', JStr ''user''),
                                       (''content'', JArr [JObj [(''text'', JStr ''a cat'')]])]])]),
               (''parameters'',
                  JObj [(''watermark'', JBool False), (''size'', JStr ''1024*1024'')])]]"
proof (intro conjI ballI)
  fix b assume "b \<in> set (posted_bodies (fst (doubao_generate env request settings)))"
  then have b: "b = doubao_requestBody request (doubao_size request)"
    by (rule doubao_generate_posted)
  show "\<forall>imgs. inputImages request = Some imgs \<and> imgs \<noteq> []
          \<longrightarrow> member b ''image'' = Some (JArr (map JStr imgs))"
    by (simp add: b doubao_image_member)
  show "\<not> has_images request \<longrightarrow> member b ''image'' = None"
    by (simp add: b doubao_image_member has_images_def split: option.splits)
next
  show "qwen_requestBody (request\<lparr>inputImages := Some imgs\<rparr>)
      = qwen_requestBody (request\<lparr>inputImages := None\<rparr>)"
    by (simp add: qwen_requestBody_def qwen_size_def)
next
  show "posted_bodies (fst (qwen_generate (env_responding (json_response 200 (JObj []))) i2i_request ()))
      = [JObj [(''model'', JStr ''qwen-image''),
               (''input'',
                  JObj [(''messages'',
                           JArr [JObj [(''role'', JStr ''user''),
                                       (''content'', JArr [JObj [(''text'', JStr ''a cat'')]])]])]),
               (''parameters'',
                  JObj [(''watermark'', JBool False), (''size'', JStr ''1024*1024'')])]]"
    by (simp add: i2i_request_def example_defs qwen_defs)
qed

theorem input_images_attached_witness:
  "doubao_requestBody (i2i_request\<lparr>modelId := ''doubao-seedream-4-5-251128''\<rparr>) (Some JNull)
     \<in> set (posted_bodies (fst (doubao_generate (env_responding (json_response 200 (JObj [])))
               (i2i_request\<lparr>modelId := ''doubao-seedream-4-5-251128''\<rparr>) ())))
   \<and> inputImages (i2i_request\<lparr>modelId := ''doubao-seedream-4-5-251128''\<rparr>)
       = Some [''data:image/png;base64,QUJD'']
   \<and> member (doubao_requestBody (i2i_request\<lparr>modelId := ''doubao-seedream-4-5-251128''\<rparr>) (Some JNull)) ''image''
       = Some (JArr [JStr ''data:image/png;base64,QUJD''])
   \<and> doubao_requestBody example_request (doubao_size example_request)
     \<in> set (posted_bodies (fst (doubao_generate (env_responding (json_response 200 (JObj []))) example_request ())))
   \<and> \<not> has_images example_request
   \<and> member (doubao_requestBody example_request (doubao_size example_request)) ''image'' = None"
proof -
  let ?env = "env_responding (json_response 200 (JObj []))"
  let ?req = "i2i_request\<lparr>modelId := ''doubao-seedream-4-5-251128''\<rparr>"
  have p1: "doubao_requestBody ?req (Some JNull) \<in> set (posted_bodies (fst (doubao_generate ?env ?req ())))"
    by (simp add: i2i_request_def example_defs doubao_defs)
  have p2: "doubao_requestBody example_request (doubao_size example_request)
     \<in> set (posted_bodies (fst (doubao_generate ?env example_request ())))"
    by (simp add: example_defs doubao_defs)
  have i: "inputImages ?req = Some [''data:image/png;base64,QUJD'']"
    "[''data:image/png;base64,QUJD''] \<noteq> []" "\<not> has_images example_request"
    by (simp_all add: i2i_request_def example_request_def has_images_def)
  from input_images_attached [of ?env ?req "()"] p1 i
  have 1: "member (doubao_requestBody ?req (Some JNull)) ''image''
       = Some (JArr (map JStr [''data:image/png;base64,QUJD'']))"
    by blast
  from input_images_attached [of ?env example_request "()"] p2 i
  have 2: "member (doubao_requestBody example_request (doubao_size example_request)) ''image'' = None"
    by blast
  from p1 p2 i 1 2 show ?thesis by simp
qed

text \<open>
  C6. The Doubao adapter looks the model up before it sends anything: for a
  \<^verbatim>\<open>modelId\<close> its catalog does not have, the call throws \<open>NotFoundError\<close> and
  its trace is empty. The Qwen adapter does not do what the claim says: it calls
  neither \<^verbatim>\<open>findModel\<close> nor \<^verbatim>\<open>chooseAblility\<close>, so a request for a model its
  catalog does not have, and a request with an input image for its text-to-image
  model \<^verbatim>\<open>qwen-image-max\<close>, are both posted to the vendor.
\<close>

theorem capability_resolution:
  "(doParseSettings env settings = Inr s
    \<and> modelId request \<notin> set (map model_id doubao_models)
    \<longrightarrow> doubao_generate env request settings = ([], Inl (Thrown NotFoundError None)))
 \<and> findModel qwen_models (modelId unknown_model_request) = Inl (Thrown NotFoundError None)
 \<and> posted_bodies (fst (qwen_generate (env_responding (json_response 200 (JObj []))) unknown_model_request ()))
      = [qwen_requestBody unknown_model_request]
 \<and> snd (qwen_generate (env_responding (json_response 200 (JObj []))) unknown_model_request ())
      = Inr \<lparr>images = [], errorReason = None\<rparr>
 \<and> chooseAblility t2i_with_image_request T2I = Inl (Thrown UnsupportedAbilityError None)
 \<and> posted_bodies (fst (qwen_generate (env_responding (json_response 200 (JObj []))) t2i_with_image_request ()))
      = [qwen_requestBody t2i_with_image_request]
 \<and> snd (qwen_generate (env_responding (json_response 200 (JObj []))) t2i_with_image_request ())
      = Inr \<lparr>images = [], errorReason = None\<rparr>"
proof (intro conjI impI)
  assume h: "doParseSettings env settings = Inr s
    \<and> modelId request \<notin> set (map model_id doubao_models)"
  then have "findModel doubao_models (modelId request) = Inl (Thrown NotFoundError None)"
    by (auto simp: findModel_def doubao_models_def)
  with h show "doubao_generate env request settings = ([], Inl (Thrown NotFoundError None))"
    by (simp add: doubao_generate_def doubao_try_def doubao_catch_def)
next
  show "findModel qwen_models (modelId unknown_model_request) = Inl (Thrown NotFoundError None)"
    by (simp add: findModel_def qwen_models_def unknown_model_request_def)
  show "posted_bodies (fst (qwen_generate (env_responding (json_response 200 (JObj []))) unknown_model_request ()))
      = [qwen_requestBody unknown_model_request]"
    by (simp add: example_defs qwen_generate_def qwen_try_def qwen_onOk_def qwen_imageData_def
          qwen_imageData_rest_def truthy_member_def gather_def ok_def qwen_httpRequest_def)
  show "snd (qwen_generate (env_responding (json_response 200 (JObj []))) unknown_model_request ())
      = Inr \<lparr>images = [], errorReason = None\<rparr>"
    by (simp add: example_defs qwen_generate_def qwen_try_def qwen_onOk_def qwen_imageData_def
          qwen_imageData_rest_def truthy_member_def gather_def ok_def qwen_httpRequest_def)
  show "chooseAblility t2i_with_image_request T2I = Inl (Thrown UnsupportedAbilityError None)"
    by (simp add: chooseAblility_def has_images_def t2i_with_image_request_def)
  show "posted_bodies (fst (qwen_generate (env_responding (json_response 200 (JObj []))) t2i_with_image_request ()))
      = [qwen_requestBody t2i_with_image_request]"
    by (simp add: example_defs qwen_generate_def qwen_try_def qwen_onOk_def qwen_imageData_def
          qwen_imageData_rest_def truthy_member_def gather_def ok_def qwen_httpRequest_def)
  show "snd (qwen_generate (env_responding (json_response 200 (JObj []))) t2i_with_image_request ())
      = Inr \<lparr>images = [], errorReason = None\<rparr>"
    by (simp add: example_defs qwen_generate_def qwen_try_def qwen_onOk_def qwen_imageData_def
          qwen_imageData_rest_def truthy_member_def gather_def ok_def qwen_httpRequest_def)
qed

theorem capability_resolution_witness:
  "doParseSettings (env_responding (json_response 200 (JObj []))) () = Inr example_settings
   \<and> modelId unknown_model_request \<notin> set (map model_id doubao_models)
   \<and> doubao_generate (env_responding (json_response 200 (JObj []))) unknown_model_request ()
       = ([], Inl (Thrown NotFoundError None))"
proof -
  have p: "doParseSettings (env_responding (json_response 200 (JObj []))) () = Inr example_settings"
    by (simp add: env_responding_def)
  have m: "modelId unknown_model_request \<notin> set (map model_id doubao_models)"
    by (simp add: unknown_model_request_def doubao_models_def)
  from capability_resolution [of "env_responding (json_response 200 (JObj []))" "()" example_settings
      unknown_model_request] p m
  show ?thesis by blast
qed

section \<open>The password update, proved\<close>

lemma updatePassword_try_success:
  assumes "updatePassword_try env db req userId = Inr (db', res)" and "success res"
  shows "\<exists>acct others pw h.
           select_account env db userId = Inr (acct # others)
         \<and> account_password acct = Some pw \<and> pw \<noteq> []
         \<and> verifyPassword env pw (currentPassword req) = Inr True
         \<and> hashPassword env (newPassword req) = Inr h
         \<and> update_account env db (account_id acct) h = Inr db'"
  using assms
  by (auto simp: updatePassword_try_def accountNotFound_def socialLogin_def
        currentPasswordIncorrect_def
      split: sum.splits list.splits option.splits if_splits)

lemma updatePassword_try_failure:
  assumes "updatePassword_try env db req userId = Inr (db', res)" and "\<not> success res"
  shows "db' = db"
  using assms
  by (auto simp: updatePassword_try_def
      split: sum.splits list.splits option.splits if_splits)

lemma updatePassword_failure:
  assumes "getContext env = Inr db" and "updatePassword env req userId = Inr (db', res)"
    and "\<not> success res"
  shows "db' = db"
  using assms
  by (auto simp: updatePassword_def split: sum.splits dest: updatePassword_try_failure)

lemma updatePassword_success:
  assumes "getContext env = Inr db" and "updatePassword env req userId = Inr (db', res)"
    and "success res"
  shows "updatePassword_try env db req userId = Inr (db', res)"
  using assms by (auto simp: updatePassword_def split: sum.splits)

lemma route_failure:
  assumes "UpdatePasswordSchema b = Some req"
    and "updatePassword env req userId = Inr (db', res)" and "\<not> success res"
  shows "reply_status (updatePassword_route env b userId) = 400
       \<and> member (reply_json (updatePassword_route env b userId)) ''code'' = Some (JStr ''error'')
       \<and> member (reply_json (updatePassword_route env b userId)) ''errorCode''
           = map_option JStr (errorCode res)"
  using assms
  by (cases "errorCode res"; cases "error res")
     (simp_all add: updatePassword_route_def opt_member_def)

lemma UpdatePasswordSchema_body_of:
  "1 \<le> length (currentPassword req) \<Longrightarrow> 6 \<le> length (newPassword req)
   \<Longrightarrow> length (newPassword req) \<le> 72
   \<Longrightarrow> UpdatePasswordSchema (body_of req) = Some req"
  by (simp add: UpdatePasswordSchema_def body_of_def)

text \<open>
  C10, amended. Once \<^verbatim>\<open>getContext()\<close> has handed out the database:
  \<^item> a successful result means the account was found, its password was neither
    \<^verbatim>\<open>null\<close> nor empty, \<open>verifyPassword\<close> accepted the current password, and the
    database is the old one with that account's password set to the hash of the new
    one;
  \<^item> a result with \<^verbatim>\<open>success: false\<close> leaves the database as it was (an update
    that throws is taken to have written nothing), and for an authenticated request
    whose body \<^verbatim>\<open>UpdatePasswordSchema\<close> accepts the route answers it with HTTP
    400, \<^verbatim>\<open>code: "error"\<close> and the result's error code;
  \<^item> a missing account, a social login and a wrong current password are told apart
    by the error codes \<^verbatim>\<open>accountNotFound\<close>, \<^verbatim>\<open>socialLoginCannotChangePassword\<close>
    and \<^verbatim>\<open>currentPasswordIncorrect\<close>;
  \<^item> an error thrown inside the \<^verbatim>\<open>try\<close> block is returned with its message and no
    error code.
  An error of \<^verbatim>\<open>getContext()\<close> itself leaves the function, and the route answers
  an accepted body with 500. A body the schema refuses is answered by the validator
  with 400, and the service is not called.
\<close>

theorem password_update:
  "(getContext env = Inr db \<longrightarrow>
      (\<forall>db' res. updatePassword env req userId = Inr (db', res) \<and> success res \<longrightarrow>
         (\<exists>acct others pw h.
            select_account env db userId = Inr (acct # others)
          \<and> account_password acct = Some pw \<and> pw \<noteq> []
          \<and> verifyPassword env pw (currentPassword req) = Inr True
          \<and> hashPassword env (newPassword req) = Inr h
          \<and> update_account env db (account_id acct) h = Inr db'))
    \<and> (\<forall>db' res. updatePassword env req userId = Inr (db', res) \<and> \<not> success res \<longrightarrow>
         db' = db)
    \<and> (select_account env db userId = Inr [] \<longrightarrow>
         updatePassword env req userId = Inr (db, accountNotFound))
    \<and> (\<forall>acct others. select_account env db userId = Inr (acct # others)
           \<and> (account_password acct = None \<or> account_password acct = Some []) \<longrightarrow>
         updatePassword env req userId = Inr (db, socialLogin))
    \<and> (\<forall>acct others pw. select_account env db userId = Inr (acct # others)
           \<and> account_password acct = Some pw \<and> pw \<noteq> []
           \<and> verifyPassword env pw (currentPassword req) = Inr False \<longrightarrow>
         updatePassword env req userId = Inr (db, currentPasswordIncorrect))
    \<and> (\<forall>e. updatePassword_try env db req userId = Inl e \<longrightarrow>
         updatePassword env req userId
           = Inr (db, \<lparr>success = False, error = Some (message_or_default e), errorCode = None\<rparr>)))
 \<and> (\<forall>b db' res. UpdatePasswordSchema b = Some req
        \<and> updatePassword env req userId = Inr (db', res) \<and> \<not> success res \<longrightarrow>
       reply_status (updatePassword_route env b userId) = 400
     \<and> member (reply_json (updatePassword_route env b userId)) ''code'' = Some (JStr ''error'')
     \<and> member (reply_json (updatePassword_route env b userId)) ''errorCode''
         = map_option JStr (errorCode res))
 \<and> \<not> success accountNotFound \<and> \<not> success socialLogin \<and> \<not> success currentPasswordIncorrect
 \<and> errorCode accountNotFound = Some ''accountNotFound''
 \<and> errorCode socialLogin = Some ''socialLoginCannotChangePassword''
 \<and> errorCode currentPasswordIncorrect = Some ''currentPasswordIncorrect''
 \<and> (\<forall>e. getContext env = Inl e \<longrightarrow>
       updatePassword env req userId = Inl e
     \<and> (\<forall>b. UpdatePasswordSchema b = Some req \<longrightarrow>
           reply_status (updatePassword_route env b userId) = 500))
 \<and> (\<forall>b. UpdatePasswordSchema b = None \<longrightarrow>
       updatePassword_route env b userId
         = \<lparr>reply_status = 400, reply_json = validation_error env b\<rparr>)"
proof (intro conjI allI impI)
  fix db' res
  assume c: "getContext env = Inr db"
    and u: "updatePassword env req userId = Inr (db', res) \<and> success res"
  then have "updatePassword_try env db req userId = Inr (db', res)"
    using updatePassword_success [of env db req userId db' res] by simp
  with u show "\<exists>acct others pw h.
            select_account env db userId = Inr (acct # others)
          \<and> account_password acct = Some pw \<and> pw \<noteq> []
          \<and> verifyPassword env pw (currentPassword req) = Inr True
          \<and> hashPassword env (newPassword req) = Inr h
          \<and> update_account env db (account_id acct) h = Inr db'"
    using updatePassword_try_success [of env db req userId db' res] by simp
next
  fix db' res
  assume c: "getContext env = Inr db"
    and u: "updatePassword env req userId = Inr (db', res) \<and> \<not> success res"
  from c u show "db' = db"
    using updatePassword_failure [of env db req userId db' res] by simp
next
  assume "getContext env = Inr db" "select_account env db userId = Inr []"
  then show "updatePassword env req userId = Inr (db, accountNotFound)"
    by (simp add: updatePassword_def updatePassword_try_def)
next
  fix acct others
  assume "getContext env = Inr db"
    "select_account env db userId = Inr (acct # others)
       \<and> (account_password acct = None \<or> account_password acct = Some [])"
  then show "updatePassword env req userId = Inr (db, socialLogin)"
    by (auto simp: updatePassword_def updatePassword_try_def)
next
  fix acct others pw
  assume "getContext env = Inr db"
    "select_account env db userId = Inr (acct # others)
       \<and> account_password acct = Some pw \<and> pw \<noteq> []
       \<and> verifyPassword env pw (currentPassword req) = Inr False"
  then show "updatePassword env req userId = Inr (db, currentPasswordIncorrect)"
    by (simp add: updatePassword_def updatePassword_try_def)
next
  fix e
  assume "getContext env = Inr db" "updatePassword_try env db req userId = Inl e"
  then show "updatePassword env req userId
           = Inr (db, \<lparr>success = False, error = Some (message_or_default e), errorCode = None\<rparr>)"
    by (simp add: updatePassword_def)
next
  fix b db' res
  assume u: "UpdatePasswordSchema b = Some req
        \<and> updatePassword env req userId = Inr (db', res) \<and> \<not> success res"
  from u show "reply_status (updatePassword_route env b userId) = 400"
    using route_failure [of b req env userId db' res] by simp
  from u show "member (reply_json (updatePassword_route env b userId)) ''code'' = Some (JStr ''error'')"
    using route_failure [of b req env userId db' res] by simp
  from u show "member (reply_json (updatePassword_route env b userId)) ''errorCode''
         = map_option JStr (errorCode res)"
    using route_failure [of b req env userId db' res] by simp
next
  show "\<not> success accountNotFound" "\<not> success socialLogin" "\<not> success currentPasswordIncorrect"
    "errorCode accountNotFound = Some ''accountNotFound''"
    "errorCode socialLogin = Some ''socialLoginCannotChangePassword''"
    "errorCode currentPasswordIncorrect = Some ''currentPasswordIncorrect''"
    by (simp_all add: accountNotFound_def socialLogin_def currentPasswordIncorrect_def)
next
  fix e assume "getContext env = Inl e"
  then show "updatePassword env req userId = Inl e"
    by (simp add: updatePassword_def)
next
  fix e b assume "getContext env = Inl e" "UpdatePasswordSchema b = Some req"
  then show "reply_status (updatePassword_route env b userId) = 500"
    by (simp add: updatePassword_def updatePassword_route_def)
next
  fix b assume "UpdatePasswordSchema b = None"
  then show "updatePassword_route env b userId
         = \<lparr>reply_status = 400, reply_json = validation_error env b\<rparr>"
    by (simp add: updatePassword_route_def)
qed

lemmas auth_defs =
  example_auth_def locked_auth_def example_accounts_def example_change_def set_password_def
  updatePassword_def updatePassword_try_def updatePassword_route_def message_or_default_def
  accountNotFound_def socialLogin_def currentPasswordIncorrect_def opt_member_def
  UpdatePasswordSchema_def body_of_def short_body_def

theorem password_update_witness:
  "getContext example_auth = Inr example_accounts
   \<and> UpdatePasswordSchema (body_of example_change) = Some example_change
   \<and> updatePassword example_auth example_change ''u1''
       = Inr (set_password example_accounts ''a1'' ''hash:new-secret'',
              \<lparr>success = True, error = None, errorCode = None\<rparr>)
   \<and> (\<exists>acct others pw h.
          select_account example_auth example_accounts ''u1'' = Inr (acct # others)
        \<and> account_password acct = Some pw \<and> pw \<noteq> []
        \<and> verifyPassword example_auth pw (currentPassword example_change) = Inr True
        \<and> hashPassword example_auth (newPassword example_change) = Inr h
        \<and> update_account example_auth example_accounts (account_id acct) h
            = Inr (set_password example_accounts ''a1'' ''hash:new-secret''))
   \<and> select_account example_auth example_accounts ''u3'' = Inr []
   \<and> updatePassword example_auth example_change ''u3'' = Inr (example_accounts, accountNotFound)
   \<and> reply_status (updatePassword_route example_auth (body_of example_change) ''u3'') = 400
   \<and> member (reply_json (updatePassword_route example_auth (body_of example_change) ''u3'')) ''code''
       = Some (JStr ''error'')
   \<and> member (reply_json (updatePassword_route example_auth (body_of example_change) ''u3'')) ''errorCode''
       = Some (JStr ''accountNotFound'')
   \<and> updatePassword example_auth example_change ''u2'' = Inr (example_accounts, socialLogin)
   \<and> updatePassword example_auth (example_change\<lparr>currentPassword := ''guess''\<rparr>) ''u1''
       = Inr (example_accounts, currentPasswordIncorrect)
   \<and> getContext locked_auth = Inr example_accounts
   \<and> updatePassword_try locked_auth example_accounts example_change ''u1''
       = Inl (Exn (Some ''database is locked''))
   \<and> updatePassword locked_auth example_change ''u1''
       = Inr (example_accounts,
              \<lparr>success = False, error = Some ''database is locked'', errorCode = None\<rparr>)
   \<and> getContext (example_auth\<lparr>getContext := Inl (Exn None)\<rparr>) = Inl (Exn None)
   \<and> updatePassword (example_auth\<lparr>getContext := Inl (Exn None)\<rparr>) example_change ''u1''
       = Inl (Exn None)
   \<and> reply_status (updatePassword_route (example_auth\<lparr>getContext := Inl (Exn None)\<rparr>)
         (body_of example_change) ''u1'')
       = 500
   \<and> UpdatePasswordSchema short_body = None
   \<and> updatePassword_route (example_auth\<lparr>getContext := Inl (Exn None)\<rparr>) short_body ''u1''
       = \<lparr>reply_status = 400, reply_json = JObj [(''success'', JBool False)]\<rparr>"
proof -
  let ?a1 = "\<lparr>account_id = ''a1'', account_userId = ''u1'', account_password = Some ''hash:old-secret''\<rparr>"
  let ?a2 = "\<lparr>account_id = ''a2'', account_userId = ''u2'', account_password = None\<rparr>"
  let ?guess = "example_change\<lparr>currentPassword := ''guess''\<rparr>"
  let ?down = "example_auth\<lparr>getContext := Inl (Exn None)\<rparr>"
  let ?b = "body_of example_change"
  have c: "getContext example_auth = Inr example_accounts"
    "getContext locked_auth = Inr example_accounts" "getContext ?down = Inl (Exn None)"
    by (simp_all add: example_auth_def locked_auth_def)
  have b: "UpdatePasswordSchema ?b = Some example_change" "UpdatePasswordSchema short_body = None"
    by (simp_all add: UpdatePasswordSchema_def body_of_def short_body_def example_change_def)
  have ve: "validation_error ?down short_body = JObj [(''success'', JBool False)]"
    by (simp add: example_auth_def)
  have s: "select_account example_auth example_accounts ''u1'' = Inr [?a1]"
    "select_account example_auth example_accounts ''u2'' = Inr [?a2]"
    "select_account example_auth example_accounts ''u3'' = Inr []"
    by (simp_all add: example_auth_def example_accounts_def)
  have v: "verifyPassword example_auth ''hash:old-secret'' (currentPassword ?guess) = Inr False"
    by (simp add: example_auth_def example_change_def)
  have ok: "updatePassword example_auth example_change ''u1''
       = Inr (set_password example_accounts ''a1'' ''hash:new-secret'',
              \<lparr>success = True, error = None, errorCode = None\<rparr>)"
    by (simp add: auth_defs)
  have t: "updatePassword_try locked_auth example_accounts example_change ''u1''
       = Inl (Exn (Some ''database is locked''))"
    by (simp add: auth_defs)
  have m: "message_or_default (Exn (Some ''database is locked'')) = ''database is locked''"
    by (simp add: message_or_default_def)
  from password_update [of example_auth example_accounts example_change "''u1''"] c ok
  have 1: "\<exists>acct others pw h.
          select_account example_auth example_accounts ''u1'' = Inr (acct # others)
        \<and> account_password acct = Some pw \<and> pw \<noteq> []
        \<and> verifyPassword example_auth pw (currentPassword example_change) = Inr True
        \<and> hashPassword example_auth (newPassword example_change) = Inr h
        \<and> update_account example_auth example_accounts (account_id acct) h
            = Inr (set_password example_accounts ''a1'' ''hash:new-secret'')"
    by simp
  from password_update [of example_auth example_accounts example_change "''u3''"] c s
  have 2: "updatePassword example_auth example_change ''u3'' = Inr (example_accounts, accountNotFound)"
    by simp
  from password_update [of example_auth example_accounts example_change "''u3''"] c 2 b
  have 3: "reply_status (updatePassword_route example_auth ?b ''u3'') = 400
     \<and> member (reply_json (updatePassword_route example_auth ?b ''u3'')) ''code''
       = Some (JStr ''error'')
     \<and> member (reply_json (updatePassword_route example_auth ?b ''u3'')) ''errorCode''
       = Some (JStr ''accountNotFound'')"
    by simp
  from password_update [of example_auth example_accounts example_change "''u2''"] c s
  have 4: "updatePassword example_auth example_change ''u2'' = Inr (example_accounts, socialLogin)"
    by simp
  from password_update [of example_auth example_accounts ?guess "''u1''"] c s v
  have 5: "updatePassword example_auth ?guess ''u1'' = Inr (example_accounts, currentPasswordIncorrect)"
    by simp
  from password_update [of locked_auth example_accounts example_change "''u1''"] c t m
  have 6: "updatePassword locked_auth example_change ''u1''
       = Inr (example_accounts,
              \<lparr>success = False, error = Some ''database is locked'', errorCode = None\<rparr>)"
    by simp
  from password_update [of ?down example_accounts example_change "''u1''"] c b ve
  have 7: "updatePassword ?down example_change ''u1'' = Inl (Exn None)
     \<and> reply_status (updatePassword_route ?down ?b ''u1'') = 500
     \<and> updatePassword_route ?down short_body ''u1''
         = \<lparr>reply_status = 400, reply_json = JObj [(''success'', JBool False)]\<rparr>"
    by simp
  from c b s ok t 1 2 3 4 5 6 7 show ?thesis by simp
qed

text \<open>
  The claim, as stated, fails: when the query for the account throws, the result has
  \<^verbatim>\<open>success: false\<close> and the error's message, and no error code.
\<close>

theorem thrown_error_no_code_counterexample:
  "select_account locked_auth example_accounts ''u1'' = Inl (Exn (Some ''database is locked''))
   \<and> updatePassword locked_auth example_change ''u1''
       = Inr (example_accounts,
              \<lparr>success = False, error = Some ''database is locked'', errorCode = None\<rparr>)
   \<and> UpdatePasswordSchema (body_of example_change) = Some example_change
   \<and> member (reply_json (updatePassword_route locked_auth (body_of example_change) ''u1'')) ''errorCode''
       = None"
  by (simp add: auth_defs)

end
